theory Spec2Isabelle
  imports Complex_Main "HOL-Library.AList"
begin

section \<open>Python values, exceptions and the outside world\<close>

text \<open>
  The handlers of the Daily Coordinator receive JSON events and exchange JSON-like values
  with the SDKs they call. A value is \<open>None\<close>, a bool, an int, a float (given by its
  numeric value), a str, a list or a dict with str keys. A dict is an association list in
  insertion order with distinct keys, which is what \<open>json.loads\<close> and a dict display
  produce; a lookup and an assignment go to the first entry of a key. A str is given by
  its UTF-8 encoding: a literal of the source is the list of its bytes, and what depends
  on the characters of a str (\<open>strip\<close>, \<open>upper\<close>, \<open>len\<close>, iteration) is a
  parameter below. Splitting at an ASCII separator and testing an ASCII prefix are the same
  on the encoding as on the characters.
\<close>

datatype pyval =
    PNone
  | PBool bool
  | PInt int
  | PFloat rat
  | PStr string
  | PList "pyval list"
  | PDict "(string \<times> pyval) list"

type_synonym pydict = "(string \<times> pyval) list"

text \<open>
  Instances of Python's \<open>Exception\<close>: the class, as far as a handler of the repository
  tells classes apart, and the message that \<open>str(exc)\<close> returns. \<open>ServiceError\<close>
  stands for whatever an SDK raises (botocore, Twilio, Google client and network errors).
  The message of an exception that the interpreter or the standard library raises is a
  parameter below (\<open>error_text\<close>), since it depends on the version of Python.
\<close>

datatype exc_class =
    ValueError | JSONDecodeError | TypeError | AttributeError | KeyError
  | ImportError | RecursionError | ServiceError

datatype exn = Exc exc_class string

fun exn_str :: "exn \<Rightarrow> string" where
  "exn_str (Exc c m) = m"

text \<open>\<open>bool(v)\<close>, the truth value that \<open>if v\<close>, \<open>not v\<close> and \<open>v or w\<close> test.\<close>

fun truthy :: "pyval \<Rightarrow> bool" where
  "truthy PNone = False"
| "truthy (PBool b) = b"
| "truthy (PInt i) = (i \<noteq> 0)"
| "truthy (PFloat r) = (r \<noteq> 0)"
| "truthy (PStr s) = (s \<noteq> [])"
| "truthy (PList xs) = (xs \<noteq> [])"
| "truthy (PDict kvs) = (kvs \<noteq> [])"

definition py_or :: "pyval \<Rightarrow> pyval \<Rightarrow> pyval" where
  "py_or a b = (if truthy a then a else b)"

text \<open>\<open>d.get(k, default)\<close> and \<open>k in d\<close> on a dict.\<close>

definition dict_get :: "pydict \<Rightarrow> string \<Rightarrow> pyval \<Rightarrow> pyval" where
  "dict_get d k dflt = (case map_of d k of None \<Rightarrow> dflt | Some v \<Rightarrow> v)"

definition dict_has :: "pydict \<Rightarrow> string \<Rightarrow> bool" where
  "dict_has d k = (map_of d k \<noteq> None)"

text \<open>
  Everything outside the process is a parameter. A request to a managed service is a
  \<open>call\<close>; \<open>respond\<close> gives the outcome of a request after a history of earlier
  requests, either an exception or the value the SDK returns; \<open>get_secret_value\<close>
  does so for the secret store, whose response is a dict. A call stands for the whole SDK
  expression of the source, the construction of its arguments included. The clock and the
  functions of the interpreter and the standard library are parameters too:
  \<^item> \<open>json_loads\<close> is \<open>json.loads\<close> on a str; it returns a value or raises, a
    \<open>JSONDecodeError\<close> for a text that is not JSON and other exceptions for some that
    is (a \<open>ValueError\<close> for an integer of too many digits, a \<open>RecursionError\<close> for
    deep nesting);
  \<^item> \<open>json_dumps\<close> is \<open>json.dumps\<close>, \<open>py_str\<close> is \<open>str\<close> as an f-string
    applies it;
  \<^item> \<open>str_upper\<close>, \<open>str_strip\<close> and \<open>str_chars\<close> are \<open>upper()\<close>,
    \<open>strip()\<close> and the list of the characters of a str;
  \<^item> \<open>b64decode_utf8\<close> is \<open>base64.b64decode(v).decode("utf-8")\<close>;
  \<^item> \<open>error_text op v\<close> is the message of the exception that the operation
    \<open>op\<close> raises on the value \<open>v\<close> that does not support it.
\<close>

text \<open>
  The calls, with the arguments the source passes:
  \<^item> \<open>GetSecretValue\<close>: \<open>secrets_client.get_secret_value(SecretId)\<close>;
  \<^item> \<open>PutItem\<close>: \<open>dynamodb.Table(name).put_item(Item)\<close>;
  \<^item> \<open>PutObject\<close>: \<open>s3_client.put_object(Bucket, Key, Body, ContentType,
    ServerSideEncryption)\<close>;
  \<^item> \<open>SnsPublish\<close>: \<open>sns_client.publish(TopicArn, Subject, Message)\<close>;
  \<^item> \<open>FromServiceAccountInfo\<close>:
    \<open>service_account.Credentials.from_service_account_info(info)\<close>;
  \<^item> \<open>PublisherClient\<close>: \<open>pubsub_v1.PublisherClient(credentials)\<close>;
  \<^item> \<open>PubsubPublish\<close>: \<open>client.publish(topic_path, data, **attributes)\<close> and the
    \<open>result(timeout=10)\<close> of its future, for the client given first;
  \<^item> \<open>MessagesCreate\<close>: \<open>client.messages.create(from_, to, body)\<close> and the
    \<open>sid\<close> of the message, for the client of the account id and token given first;
  \<^item> \<open>FirestoreSet\<close>: \<open>db.collection(c).document(d).set(data, merge)\<close>, where a
    field of the data is a value, \<open>firestore.SERVER_TIMESTAMP\<close> or
    \<open>firestore.Increment(v)\<close>.
\<close>

datatype fsval = FsVal pyval | SERVER_TIMESTAMP | Increment pyval

datatype call =
    GetSecretValue string
  | PutItem "string option" pydict
  | PutObject "string option" string string string string
  | SnsPublish "string option" string string
  | FromServiceAccountInfo pyval
  | PublisherClient pyval
  | PubsubPublish pyval string string pydict
  | MessagesCreate pyval pyval string string string
  | FirestoreSet string pyval "(string \<times> fsval) list" bool

record datetime =
  isoformat :: string
  timestamp_s :: int
  timestamp_ms :: int
  date_str :: string

record services =
  respond :: "call list \<Rightarrow> call \<Rightarrow> exn + pyval"
  get_secret_value :: "call list \<Rightarrow> string \<Rightarrow> exn + pydict"
  utcnow :: "nat \<Rightarrow> datetime"
  json_loads :: "string \<Rightarrow> exn + pyval"
  json_dumps :: "pyval \<Rightarrow> string"
  py_str :: "pyval \<Rightarrow> string"
  str_upper :: "string \<Rightarrow> string"
  str_strip :: "string \<Rightarrow> string"
  str_chars :: "string \<Rightarrow> string list"
  b64decode_utf8 :: "pyval \<Rightarrow> exn + string"
  error_text :: "string \<Rightarrow> pyval \<Rightarrow> string"

text \<open>
  The state of a process: the requests made so far, the log records written (level and
  message), the number of clock readings taken, and the module-level caches
  \<open>_cached_webhook\<close>, \<open>_twilio_client\<close> and \<open>_publisher_client\<close>. A Twilio
  client is built from an account id and a token; the publisher client is the object the
  Google library returns. \<open>invoke\<close> and \<open>fetch_secret\<close> make a request,
  \<open>log\<close> writes a log record, \<open>now\<close> is \<open>datetime.utcnow()\<close>, of which the
  handlers use the four renderings of \<open>datetime\<close>.
\<close>

datatype twilio = Client pyval pyval

record world =
  calls :: "call list"
  logs :: "(string \<times> string) list"
  ticks :: nat
  cached_webhook :: pyval
  twilio_client :: "twilio option"
  publisher_client :: "pyval option"

definition invoke :: "services \<Rightarrow> call \<Rightarrow> world \<Rightarrow> (exn + pyval) \<times> world" where
  "invoke sv c w = (respond sv (calls w) c, w\<lparr>calls := calls w @ [c]\<rparr>)"

definition fetch_secret :: "services \<Rightarrow> string \<Rightarrow> world \<Rightarrow> (exn + pydict) \<times> world" where
  "fetch_secret sv name w =
     (get_secret_value sv (calls w) name, w\<lparr>calls := calls w @ [GetSecretValue name]\<rparr>)"

definition log :: "string \<Rightarrow> string \<Rightarrow> world \<Rightarrow> world" where
  "log level msg w = w\<lparr>logs := logs w @ [(level, msg)]\<rparr>"

definition now :: "services \<Rightarrow> world \<Rightarrow> datetime \<times> world" where
  "now sv w = (utcnow sv (ticks w), w\<lparr>ticks := Suc (ticks w)\<rparr>)"

text \<open>
  \<open>v.get(k, default)\<close> on any value: only a dict has \<open>get\<close>. \<open>for x in v\<close>: a
  list yields its elements, a dict its keys, a str its characters. \<open>json.loads(v)\<close>: a
  str is parsed, anything else is a TypeError.
\<close>

fun py_get :: "services \<Rightarrow> pyval \<Rightarrow> string \<Rightarrow> pyval \<Rightarrow> exn + pyval" where
  "py_get sv (PDict d) k dflt = Inr (dict_get d k dflt)"
| "py_get sv v k dflt = Inl (Exc AttributeError (error_text sv ''get'' v))"

fun py_iter :: "services \<Rightarrow> pyval \<Rightarrow> exn + pyval list" where
  "py_iter sv (PList xs) = Inr xs"
| "py_iter sv (PDict d) = Inr (map (\<lambda>kv. PStr (fst kv)) d)"
| "py_iter sv (PStr s) = Inr (map PStr (str_chars sv s))"
| "py_iter sv v = Inl (Exc TypeError (error_text sv ''iter'' v))"

fun py_json_loads :: "services \<Rightarrow> pyval \<Rightarrow> exn + pyval" where
  "py_json_loads sv (PStr s) = json_loads sv s"
| "py_json_loads sv v = Inl (Exc TypeError (error_text sv ''json.loads'' v))"

text \<open>The environment variables and optional imports read when the modules load.\<close>

record config =
  SLACK_SECRET_NAME :: "string option"
  SLACK_SECRET_KEY :: string
  TWILIO_SECRET_NAME :: "string option"
  twilio_imported :: bool
  WHATSAPP_FROM :: string
  WHATSAPP_TO :: "string option"
  GCP_PUBSUB_SECRET_NAME :: "string option"
  GCP_PROJECT_ID :: "string option"
  GCP_PUBSUB_TOPIC :: string
  pubsub_imported :: bool
  DYNAMODB_TABLE :: "string option"
  S3_BUCKET :: "string option"
  SNS_TOPIC_ARN :: "string option"
  SECRETS_MANAGER_ARN :: "string option"

section \<open>lambda/slack\_poster.py\<close>

text \<open>
  \<open>_load_webhook_url\<close>: the cached webhook if there is one; otherwise the secret is
  fetched, parsed as JSON when it parses (a dict gives the configured key or
  \<open>webhook_url\<close>, any other JSON value gives nothing, a decode error gives the raw
  string), and cached.
\<close>

definition load_webhook_url :: "config \<Rightarrow> services \<Rightarrow> world \<Rightarrow> (exn + pyval) \<times> world" where
  "load_webhook_url cf sv w =
     (if truthy (cached_webhook w) then (Inr (cached_webhook w), w)
      else
        (case SLACK_SECRET_NAME cf of
           None \<Rightarrow>
             (Inl (Exc ValueError ''SLACK_WEBHOOK_SECRET_NAME environment variable is not set''), w)
         | Some name \<Rightarrow>
             if name = [] then
               (Inl (Exc ValueError ''SLACK_WEBHOOK_SECRET_NAME environment variable is not set''), w)
             else
               (case fetch_secret sv name w of
                  (Inl exc, w1) \<Rightarrow>
                    (Inl exc, log ''ERROR'' (''Unable to load Slack webhook secret: '' @ exn_str exc) w1)
                | (Inr response, w1) \<Rightarrow>
                    (let secret_string = dict_get response ''SecretString'' PNone in
                     if \<not> truthy secret_string then
                       (Inl (Exc ValueError ''Slack webhook secret does not contain SecretString data''), w1)
                     else
                           (case (case py_json_loads sv secret_string of
                                    Inr payload \<Rightarrow>
                                      Inr (case payload of
                                             PDict d \<Rightarrow>
                                               py_or (dict_get d (SLACK_SECRET_KEY cf) PNone)
                                                 (dict_get d ''webhook_url'' PNone)
                                           | _ \<Rightarrow> PNone)
                                  | Inl (Exc JSONDecodeError m) \<Rightarrow> Inr secret_string
                                  | Inl exc \<Rightarrow> Inl exc) of
                              Inl exc \<Rightarrow> (Inl exc, w1)
                            | Inr webhook \<Rightarrow>
                                if \<not> truthy webhook then
                                  (Inl (Exc ValueError ''Slack webhook URL not found within the provided secret''), w1)
                                else (Inr webhook, w1\<lparr>cached_webhook := webhook\<rparr>))))))"

text \<open>
  \<open>_extract_summary\<close>. The summary is the dict with the keys \<open>task\<close>, \<open>status\<close>,
  \<open>details\<close> and \<open>subject\<close>; an assignment to a key keeps the key's position.
\<close>

definition summary0 :: pydict where
  "summary0 = [(''task'', PStr ''Daily Coordinator''), (''status'', PStr ''updated''),
               (''details'', PNone), (''subject'', PNone)]"

text \<open>
  The body of the loop for a record whose \<open>EventSource\<close> is \<open>aws:sns\<close>. A message
  that is a str is decoded; a \<open>JSONDecodeError\<close> leaves \<open>decoded\<close> None, any other
  exception of \<open>json.loads\<close> leaves the function.
\<close>

definition extract_sns :: "services \<Rightarrow> pydict \<Rightarrow> pyval \<Rightarrow> exn + pydict" where
  "extract_sns sv summary record =
     (case py_get sv record ''Sns'' (PDict []) of
        Inl exc \<Rightarrow> Inl exc
      | Inr sns_payload \<Rightarrow>
          (case py_get sv sns_payload ''Subject'' PNone of
             Inl exc \<Rightarrow> Inl exc
           | Inr subject \<Rightarrow>
               (case py_get sv sns_payload ''Message'' PNone of
                  Inl exc \<Rightarrow> Inl exc
                | Inr message \<Rightarrow>
                    (let summary1 = AList.update ''subject'' subject summary;
                         summary2 = AList.update ''details'' message summary1
                     in case message of
                          PStr s \<Rightarrow>
                            (case (case json_loads sv s of
                                     Inr v \<Rightarrow> Inr v
                                   | Inl (Exc JSONDecodeError m) \<Rightarrow> Inr PNone
                                   | Inl exc \<Rightarrow> Inl exc) of
                               Inl exc \<Rightarrow> Inl exc
                             | Inr (PDict decoded) \<Rightarrow>
                                 (let summary3 = AList.update ''task''
                                        (py_or (dict_get decoded ''task_name'' PNone)
                                          (py_or (dict_get decoded ''task'' PNone)
                                            (dict_get summary2 ''task'' PNone))) summary2;
                                      summary4 = AList.update ''status''
                                        (py_or (dict_get decoded ''status'' PNone)
                                          (dict_get summary3 ''status'' PNone)) summary3
                                  in Inr (AList.update ''details''
                                        (py_or (dict_get decoded ''details'' PNone)
                                          (py_or (dict_get decoded ''message'' PNone)
                                            (dict_get summary4 ''details'' PNone))) summary4))
                             | Inr v \<Rightarrow> Inr summary2)
                        | _ \<Rightarrow> Inr summary2))))"

fun extract_records :: "services \<Rightarrow> pydict \<Rightarrow> pyval list \<Rightarrow> exn + pydict" where
  "extract_records sv summary [] = Inr summary"
| "extract_records sv summary (record # rest) =
     (case py_get sv record ''EventSource'' PNone of
        Inl exc \<Rightarrow> Inl exc
      | Inr source \<Rightarrow>
          if source = PStr ''aws:sns'' then extract_sns sv summary record
          else extract_records sv summary rest)"

definition extract_summary :: "services \<Rightarrow> pyval \<Rightarrow> exn + pydict" where
  "extract_summary sv event =
     (case event of
        PDict d \<Rightarrow>
          if dict_has d ''Records'' then
            (case py_iter sv (dict_get d ''Records'' PNone) of
               Inl exc \<Rightarrow> Inl exc
             | Inr records \<Rightarrow> extract_records sv summary0 records)
          else
            (let summary1 = AList.update ''task''
                   (py_or (dict_get d ''task_name'' PNone)
                     (py_or (dict_get d ''task'' PNone)
                       (py_or (dict_get d ''coordinator_id'' PNone)
                         (dict_get summary0 ''task'' PNone)))) summary0;
                 summary2 = AList.update ''status''
                   (py_or (dict_get d ''status'' PNone) (dict_get summary1 ''status'' PNone)) summary1
             in Inr (AList.update ''details''
                   (py_or (dict_get d ''details'' PNone)
                     (py_or (dict_get d ''message'' PNone)
                       (dict_get summary2 ''details'' PNone))) summary2))
      | _ \<Rightarrow> Inr summary0)"

section \<open>lambda-whatsapp/whatsapp\_sender.py\<close>

text \<open>
  \<open>_get_twilio_client\<close>: the cached client if there is one; otherwise the credentials
  are fetched and a client is built from them. A client object is always true.
\<close>

definition get_twilio_client_try :: "services \<Rightarrow> string \<Rightarrow> world \<Rightarrow> (exn + twilio) \<times> world" where
  "get_twilio_client_try sv name w =
     (case fetch_secret sv name w of
        (Inl exc, w1) \<Rightarrow> (Inl exc, w1)
      | (Inr response, w1) \<Rightarrow>
          (let secret_string = dict_get response ''SecretString'' PNone in
           if \<not> truthy secret_string then
             (Inl (Exc ValueError ''Twilio credentials not found in secret''), w1)
           else
             (case py_json_loads sv secret_string of
                Inl exc \<Rightarrow> (Inl exc, w1)
              | Inr creds \<Rightarrow>
                  (case py_get sv creds ''account_sid'' PNone of
                     Inl exc \<Rightarrow> (Inl exc, w1)
                   | Inr account_sid \<Rightarrow>
                       (case py_get sv creds ''auth_token'' PNone of
                          Inl exc \<Rightarrow> (Inl exc, w1)
                        | Inr auth_token \<Rightarrow>
                            if \<not> truthy account_sid \<or> \<not> truthy auth_token then
                              (Inl (Exc ValueError ''Missing account_sid or auth_token in secret''), w1)
                            else
                              (Inr (Client account_sid auth_token),
                               log ''INFO'' ''Twilio client initialized''
                                 (w1\<lparr>twilio_client := Some (Client account_sid auth_token)\<rparr>)))))))"

definition get_twilio_client :: "config \<Rightarrow> services \<Rightarrow> world \<Rightarrow> (exn + twilio) \<times> world" where
  "get_twilio_client cf sv w =
     (case twilio_client w of
        Some client \<Rightarrow> (Inr client, w)
      | None \<Rightarrow>
          if \<not> twilio_imported cf then
            (Inl (Exc ImportError
               ''twilio library not available. Add to Lambda layer or deployment package.''), w)
          else
            (case TWILIO_SECRET_NAME cf of
               None \<Rightarrow> (Inl (Exc ValueError ''TWILIO_SECRET_NAME environment variable not set''), w)
             | Some name \<Rightarrow>
                 if name = [] then
                   (Inl (Exc ValueError ''TWILIO_SECRET_NAME environment variable not set''), w)
                 else
                   (case get_twilio_client_try sv name w of
                      (Inl exc, w1) \<Rightarrow>
                        (Inl exc,
                         log ''ERROR'' (''Failed to initialize Twilio client: '' @ exn_str exc) w1)
                    | (Inr client, w1) \<Rightarrow> (Inr client, w1))))"

text \<open>
  \<open>_format_whatsapp_message\<close>. The emoji and the bullet of the source are written in
  UTF-8. A status that is a list or a dict is not hashable and cannot be looked up in the
  emoji table; \<open>upper\<close> exists on a str only; \<open>len\<close> exists on a str, a list and a dict.
\<close>

definition join :: "string \<Rightarrow> string list \<Rightarrow> string" where
  "join sep xs = (case xs of [] \<Rightarrow> [] | y # ys \<Rightarrow> foldl (\<lambda>acc x. acc @ sep @ x) y ys)"

fun py_len :: "services \<Rightarrow> pyval \<Rightarrow> exn + nat" where
  "py_len sv (PStr s) = Inr (length (str_chars sv s))"
| "py_len sv (PList xs) = Inr (length xs)"
| "py_len sv (PDict d) = Inr (length d)"
| "py_len sv v = Inl (Exc TypeError (error_text sv ''len'' v))"

fun status_emoji :: "services \<Rightarrow> pyval \<Rightarrow> exn + string" where
  "status_emoji sv (PStr s) =
     Inr (if s = ''success'' then [CHR 0xE2, CHR 0x9C, CHR 0x85]
          else if s = ''failed'' then [CHR 0xE2, CHR 0x9D, CHR 0x8C]
          else if s = ''partial'' then [CHR 0xE2, CHR 0x9A, CHR 0xA0, CHR 0xEF, CHR 0xB8, CHR 0x8F]
          else [CHR 0xE2, CHR 0x84, CHR 0xB9, CHR 0xEF, CHR 0xB8, CHR 0x8F])"
| "status_emoji sv (PList xs) = Inl (Exc TypeError (error_text sv ''hash'' (PList xs)))"
| "status_emoji sv (PDict d) = Inl (Exc TypeError (error_text sv ''hash'' (PDict d)))"
| "status_emoji sv v = Inr [CHR 0xE2, CHR 0x84, CHR 0xB9, CHR 0xEF, CHR 0xB8, CHR 0x8F]"

fun py_upper :: "services \<Rightarrow> pyval \<Rightarrow> exn + string" where
  "py_upper sv (PStr s) = Inr (str_upper sv s)"
| "py_upper sv v = Inl (Exc AttributeError (error_text sv ''upper'' v))"

definition error_lines :: "services \<Rightarrow> pyval \<Rightarrow> exn + string list" where
  "error_lines sv errors =
     (if truthy errors then
        (case py_len sv errors of
           Inl exc \<Rightarrow> Inl exc
         | Inr n \<Rightarrow>
             (case py_iter sv errors of
                Inl exc \<Rightarrow> Inl exc
              | Inr errs \<Rightarrow>
                  Inr ((''*Errors:* '' @ py_str sv (PInt (int n))) #
                       (if n \<le> 3
                        then map (\<lambda>err. ''  '' @ [CHR 0xE2, CHR 0x80, CHR 0xA2] @ '' '' @ py_str sv err) errs
                        else []))))
      else Inr [])"

definition format_whatsapp_message :: "services \<Rightarrow> pyval \<Rightarrow> exn + string" where
  "format_whatsapp_message sv event_data =
     (case event_data of
        PDict d \<Rightarrow>
          (let coordinator_id = dict_get d ''coordinator_id'' (PStr ''Unknown'');
               status = dict_get d ''status'' (PStr ''unknown'');
               tasks_processed = dict_get d ''tasks_processed'' (PInt 0);
               errors = dict_get d ''errors'' (PList []);
               timestamp = dict_get d ''timestamp'' (PStr [])
           in case status_emoji sv status of
                Inl exc \<Rightarrow> Inl exc
              | Inr emoji \<Rightarrow>
                  (case py_upper sv status of
                     Inl exc \<Rightarrow> Inl exc
                   | Inr upper \<Rightarrow>
                       (case error_lines sv errors of
                          Inl exc \<Rightarrow> Inl exc
                        | Inr elines \<Rightarrow>
                            Inr (join [CHR 0x0A]
                              ([emoji @ '' *Daily Coordinator Update*'',
                                [],
                                ''*ID:* '' @ py_str sv coordinator_id,
                                ''*Status:* '' @ upper,
                                ''*Tasks:* '' @ py_str sv tasks_processed]
                               @ elines
                               @ (if truthy timestamp then [''*Time:* '' @ py_str sv timestamp]
                                  else []))))))
      | _ \<Rightarrow> Inl (Exc AttributeError (error_text sv ''get'' event_data)))"

text \<open>\<open>send_whatsapp_alert\<close>: the body of the \<open>try\<close>, and the function that logs and re-raises.\<close>

definition send_whatsapp_alert_try ::
  "config \<Rightarrow> services \<Rightarrow> pyval \<Rightarrow> string \<Rightarrow> world \<Rightarrow> (exn + pyval) \<times> world" where
  "send_whatsapp_alert_try cf sv event_data recipient w =
     (case get_twilio_client cf sv w of
        (Inl exc, w1) \<Rightarrow> (Inl exc, w1)
      | (Inr (Client account_sid auth_token), w1) \<Rightarrow>
          (case format_whatsapp_message sv event_data of
             Inl exc \<Rightarrow> (Inl exc, w1)
           | Inr message_body \<Rightarrow>
               (case invoke sv (MessagesCreate account_sid auth_token (WHATSAPP_FROM cf)
                                  recipient message_body) w1 of
                  (Inl exc, w2) \<Rightarrow> (Inl exc, w2)
                | (Inr sid, w2) \<Rightarrow>
                    (Inr sid,
                     log ''INFO'' (''WhatsApp sent to '' @ recipient @ '', SID: '' @ py_str sv sid) w2))))"

definition send_whatsapp_alert ::
  "config \<Rightarrow> services \<Rightarrow> pyval \<Rightarrow> string \<Rightarrow> world \<Rightarrow> (exn + pyval) \<times> world" where
  "send_whatsapp_alert cf sv event_data recipient w =
     (case send_whatsapp_alert_try cf sv event_data recipient w of
        (Inl exc, w1) \<Rightarrow>
          (Inl exc,
           log ''ERROR'' (''Failed to send WhatsApp to '' @ recipient @ '': '' @ exn_str exc) w1)
      | (Inr sid, w1) \<Rightarrow> (Inr sid, w1))"

text \<open>\<open>str.split(sep)\<close> for a one-character ASCII separator, and \<open>str.startswith\<close>.\<close>

fun split_on :: "char \<Rightarrow> string \<Rightarrow> string list" where
  "split_on sep [] = [[]]"
| "split_on sep (c # cs) =
     (if c = sep then [] # split_on sep cs
      else (case split_on sep cs of
              [] \<Rightarrow> [[c]]
            | x # xs \<Rightarrow> (c # x) # xs))"

definition startswith :: "string \<Rightarrow> string \<Rightarrow> bool" where
  "startswith s p = (take (length p) s = p)"

text \<open>
  The event data of \<open>lambda_handler\<close>: the message of the first \<open>aws:sns\<close> record,
  decoded when it is JSON and wrapped in a dict otherwise (None when there is no such
  record), or the event itself when it has no \<open>Records\<close>. \<open>x[k]\<close> with a str key
  is a KeyError on a dict without the key and a TypeError on any other value.
\<close>

fun py_getitem :: "services \<Rightarrow> pyval \<Rightarrow> string \<Rightarrow> exn + pyval" where
  "py_getitem sv (PDict d) k =
     (case map_of d k of
        None \<Rightarrow> Inl (Exc KeyError ([CHR 0x27] @ k @ [CHR 0x27]))
      | Some v \<Rightarrow> Inr v)"
| "py_getitem sv v k = Inl (Exc TypeError (error_text sv ''getitem'' v))"

fun sns_event_data :: "services \<Rightarrow> pyval list \<Rightarrow> exn + pyval" where
  "sns_event_data sv [] = Inr PNone"
| "sns_event_data sv (record # rest) =
     (case py_get sv record ''EventSource'' PNone of
        Inl exc \<Rightarrow> Inl exc
      | Inr source \<Rightarrow>
          if source = PStr ''aws:sns'' then
            (case py_getitem sv record ''Sns'' of
               Inl exc \<Rightarrow> Inl exc
             | Inr sns \<Rightarrow>
                 (case py_getitem sv sns ''Message'' of
                    Inl exc \<Rightarrow> Inl exc
                  | Inr sns_message \<Rightarrow>
                      (case py_json_loads sv sns_message of
                         Inr v \<Rightarrow> Inr v
                       | Inl (Exc JSONDecodeError m) \<Rightarrow> Inr (PDict [(''message'', sns_message)])
                       | Inl exc \<Rightarrow> Inl exc)))
          else sns_event_data sv rest)"

definition whatsapp_event_data :: "services \<Rightarrow> pydict \<Rightarrow> exn + pyval" where
  "whatsapp_event_data sv event =
     (if dict_has event ''Records'' then
        (case py_iter sv (dict_get event ''Records'' PNone) of
           Inl exc \<Rightarrow> Inl exc
         | Inr records \<Rightarrow> sns_event_data sv records)
      else Inr (PDict event))"

text \<open>
  The loop over the recipients, with the result list built so far. Each send is in its own
  \<open>try\<close>: the entry appended is \<open>sent\<close> with the message id, or \<open>failed\<close> with the
  text of the exception.
\<close>

definition whatsapp_format :: "string \<Rightarrow> string" where
  "whatsapp_format recipient =
     (if \<not> startswith recipient ''whatsapp:'' then ''whatsapp:'' @ recipient else recipient)"

definition result_entry :: "string \<Rightarrow> exn + pyval \<Rightarrow> pyval" where
  "result_entry recipient outcome =
     (case outcome of
        Inr message_sid \<Rightarrow>
          PDict [(''recipient'', PStr recipient), (''sid'', message_sid), (''status'', PStr ''sent'')]
      | Inl exc \<Rightarrow>
          PDict [(''recipient'', PStr recipient), (''error'', PStr (exn_str exc)),
                 (''status'', PStr ''failed'')])"

fun send_all ::
  "config \<Rightarrow> services \<Rightarrow> pyval \<Rightarrow> string list \<Rightarrow> pyval list \<Rightarrow> world \<Rightarrow> pyval list \<times> world" where
  "send_all cf sv event_data [] results w = (results, w)"
| "send_all cf sv event_data (recipient # rest) results w =
     (case send_whatsapp_alert cf sv event_data (whatsapp_format recipient) w of
        (outcome, w1) \<Rightarrow>
          send_all cf sv event_data rest
            (results @ [result_entry (whatsapp_format recipient) outcome]) w1)"

text \<open>
  A response \<open>{"statusCode": code, "body": json.dumps(body)}\<close>, and \<open>lambda_handler\<close>.
\<close>

definition api_response :: "services \<Rightarrow> int \<Rightarrow> pyval \<Rightarrow> pyval" where
  "api_response sv code body = PDict [(''statusCode'', PInt code), (''body'', PStr (json_dumps sv body))]"

definition whatsapp_lambda_handler ::
  "config \<Rightarrow> services \<Rightarrow> pydict \<Rightarrow> world \<Rightarrow> (exn + pyval) \<times> world" where
  "whatsapp_lambda_handler cf sv event w =
     (let w0 = log ''INFO'' (''Received event: '' @ json_dumps sv (PDict event)) w in
      case whatsapp_event_data sv event of
        Inl exc \<Rightarrow> (Inl exc, w0)
      | Inr event_data \<Rightarrow>
          if \<not> truthy event_data then
            (Inr (api_response sv 400 (PDict [(''error'', PStr ''No event data'')])), w0)
          else
            (case WHATSAPP_TO cf of
               None \<Rightarrow>
                 (Inr (api_response sv 200 (PDict [(''message'', PStr ''WhatsApp not configured'')])),
                  log ''WARNING'' ''WHATSAPP_TO not configured, skipping WhatsApp alerts'' w0)
             | Some to \<Rightarrow>
                 if to = [] then
                   (Inr (api_response sv 200 (PDict [(''message'', PStr ''WhatsApp not configured'')])),
                    log ''WARNING'' ''WHATSAPP_TO not configured, skipping WhatsApp alerts'' w0)
                 else
                   (case send_all cf sv event_data (map (str_strip sv) (split_on CHR '','' to)) []
                           w0 of
                      (results, w1) \<Rightarrow>
                        (Inr (api_response sv 200
                                (PDict [(''message'', PStr ''WhatsApp alerts processed''),
                                        (''results'', PList results)])), w1))))"

section \<open>lambda/gcp\_pubsub.py\<close>

text \<open>
  \<open>_get_publisher_client\<close>: the cached client if there is one; otherwise the service
  account key is fetched, and the credentials and the client are built from it by the
  Google libraries.
\<close>

definition get_publisher_client_try :: "services \<Rightarrow> string \<Rightarrow> world \<Rightarrow> (exn + pyval) \<times> world" where
  "get_publisher_client_try sv name w =
     (case fetch_secret sv name w of
        (Inl exc, w1) \<Rightarrow> (Inl exc, w1)
      | (Inr response, w1) \<Rightarrow>
          (let key_json = dict_get response ''SecretString'' PNone in
           if \<not> truthy key_json then
             (Inl (Exc ValueError ''GCP service account key not found in secret''), w1)
           else
             (case py_json_loads sv key_json of
                Inl exc \<Rightarrow> (Inl exc, w1)
              | Inr credentials_info \<Rightarrow>
                  (case invoke sv (FromServiceAccountInfo credentials_info) w1 of
                     (Inl exc, w2) \<Rightarrow> (Inl exc, w2)
                   | (Inr credentials, w2) \<Rightarrow>
                       (case invoke sv (PublisherClient credentials) w2 of
                          (Inl exc, w3) \<Rightarrow> (Inl exc, w3)
                        | (Inr client, w3) \<Rightarrow>
                            (Inr client,
                             log ''INFO'' ''GCP Pub/Sub publisher client initialized''
                               (w3\<lparr>publisher_client := Some client\<rparr>)))))))"

definition get_publisher_client :: "config \<Rightarrow> services \<Rightarrow> world \<Rightarrow> (exn + pyval) \<times> world" where
  "get_publisher_client cf sv w =
     (case publisher_client w of
        Some client \<Rightarrow> (Inr client, w)
      | None \<Rightarrow>
          if \<not> pubsub_imported cf then
            (Inl (Exc ImportError
               (''google-cloud-pubsub library not available. '' @
                ''Add it to Lambda layer or deployment package.'')), w)
          else
            (case GCP_PUBSUB_SECRET_NAME cf of
               None \<Rightarrow>
                 (Inl (Exc ValueError ''GCP_PUBSUB_SECRET_NAME environment variable not set''), w)
             | Some name \<Rightarrow>
                 if name = [] then
                   (Inl (Exc ValueError ''GCP_PUBSUB_SECRET_NAME environment variable not set''), w)
                 else if GCP_PROJECT_ID cf = None \<or> GCP_PROJECT_ID cf = Some [] then
                   (Inl (Exc ValueError ''GCP_PROJECT_ID environment variable not set''), w)
                 else
                   (case get_publisher_client_try sv name w of
                      (Inl exc, w1) \<Rightarrow>
                        (Inl exc,
                         log ''ERROR'' (''Failed to initialize GCP Pub/Sub client: '' @ exn_str exc) w1)
                    | (Inr client, w1) \<Rightarrow> (Inr client, w1))))"

text \<open>\<open>publish_to_pubsub\<close>: the body of the \<open>try\<close>, and the function that logs and re-raises.\<close>

definition topic_path :: "string option \<Rightarrow> string \<Rightarrow> string" where
  "topic_path project topic =
     ''projects/'' @ (case project of None \<Rightarrow> ''None'' | Some p \<Rightarrow> p) @ ''/topics/'' @ topic"

definition publish_to_pubsub_try :: "config \<Rightarrow> services \<Rightarrow> pyval \<Rightarrow> world \<Rightarrow> (exn + pyval) \<times> world" where
  "publish_to_pubsub_try cf sv event_data w =
     (case get_publisher_client cf sv w of
        (Inl exc, w1) \<Rightarrow> (Inl exc, w1)
      | (Inr client, w1) \<Rightarrow>
          (let message_data = json_dumps sv event_data in
           case py_get sv event_data ''status'' (PStr ''unknown'') of
             Inl exc \<Rightarrow> (Inl exc, w1)
           | Inr event_type \<Rightarrow>
               (case py_get sv event_data ''coordinator_id'' (PStr []) of
                  Inl exc \<Rightarrow> (Inl exc, w1)
                | Inr coordinator_id \<Rightarrow>
                    (case invoke sv
                            (PubsubPublish client
                               (topic_path (GCP_PROJECT_ID cf) (GCP_PUBSUB_TOPIC cf)) message_data
                               [(''source'', PStr ''daily-coordinator''),
                                (''event_type'', event_type),
                                (''coordinator_id'', coordinator_id)]) w1 of
                       (Inl exc, w2) \<Rightarrow> (Inl exc, w2)
                     | (Inr message_id, w2) \<Rightarrow>
                         (Inr message_id,
                          log ''INFO'' (''Published message '' @ py_str sv message_id @
                                        '' to topic '' @ GCP_PUBSUB_TOPIC cf) w2)))))"

definition publish_to_pubsub :: "config \<Rightarrow> services \<Rightarrow> pyval \<Rightarrow> world \<Rightarrow> (exn + pyval) \<times> world" where
  "publish_to_pubsub cf sv event_data w =
     (case publish_to_pubsub_try cf sv event_data w of
        (Inl exc, w1) \<Rightarrow>
          (Inl exc, log ''ERROR'' (''Failed to publish to Pub/Sub: '' @ exn_str exc) w1)
      | (Inr message_id, w1) \<Rightarrow> (Inr message_id, w1))"

text \<open>
  \<open>lambda_handler_with_pubsub(original_handler)\<close>, applied to an event and a context. The
  wrapped handler is any function of the event, the context and the state of the process.
  \<open>v == 200\<close> holds for the int and the float of that value. \<open>republish\<close> is the
  body of the \<open>try\<close>.
\<close>

fun py_eq_int :: "pyval \<Rightarrow> int \<Rightarrow> bool" where
  "py_eq_int (PInt i) n = (i = n)"
| "py_eq_int (PFloat r) n = (r = of_int n)"
| "py_eq_int (PBool b) n = ((if b then 1 else 0) = n)"
| "py_eq_int v n = False"

fun publishable :: "pyval \<Rightarrow> bool" where
  "publishable (PDict d) = py_eq_int (dict_get d ''statusCode'' PNone) 200"
| "publishable v = False"

definition republish :: "config \<Rightarrow> services \<Rightarrow> pyval \<Rightarrow> world \<Rightarrow> (exn + pyval) \<times> world" where
  "republish cf sv result w =
     (case py_get sv result ''body'' (PStr ''{}'') of
        Inl exc \<Rightarrow> (Inl exc, w)
      | Inr b \<Rightarrow>
          (case py_json_loads sv b of
             Inl exc \<Rightarrow> (Inl exc, w)
           | Inr body \<Rightarrow> publish_to_pubsub cf sv body w))"

definition wrapper ::
  "config \<Rightarrow> services \<Rightarrow> (pyval \<Rightarrow> 'c \<Rightarrow> world \<Rightarrow> (exn + pyval) \<times> world) \<Rightarrow>
   pyval \<Rightarrow> 'c \<Rightarrow> world \<Rightarrow> (exn + pyval) \<times> world" where
  "wrapper cf sv original_handler event context w =
     (case original_handler event context w of
        (Inl exc, w1) \<Rightarrow> (Inl exc, w1)
      | (Inr result, w1) \<Rightarrow>
          if publishable result then
            (case republish cf sv result w1 of
               (Inl exc, w2) \<Rightarrow>
                 (Inr result, log ''WARNING'' (''Failed to publish to Pub/Sub: '' @ exn_str exc) w2)
             | (Inr message_id, w2) \<Rightarrow> (Inr result, w2))
          else (Inr result, w1))"

definition lambda_handler_with_pubsub ::
  "config \<Rightarrow> services \<Rightarrow> (pyval \<Rightarrow> 'c \<Rightarrow> world \<Rightarrow> (exn + pyval) \<times> world) \<Rightarrow>
   pyval \<Rightarrow> 'c \<Rightarrow> world \<Rightarrow> (exn + pyval) \<times> world" where
  "lambda_handler_with_pubsub cf sv original_handler = wrapper cf sv original_handler"

section \<open>cloud-function/main.py\<close>

text \<open>
  \<open>pubsub_to_firestore\<close>: the body of the \<open>try\<close>, and the function that logs and
  re-raises. A write is the call \<open>db.collection(c).document(d).set(data, merge)\<close>.
\<close>

definition decode_message :: "services \<Rightarrow> pyval \<Rightarrow> exn + pyval" where
  "decode_message sv data =
     (case b64decode_utf8 sv data of
        Inl exc \<Rightarrow> Inl exc
      | Inr message_data \<Rightarrow> py_json_loads sv (PStr message_data))"

definition task_doc :: "pydict \<Rightarrow> pydict \<Rightarrow> pyval \<Rightarrow> pyval \<Rightarrow> (string \<times> fsval) list" where
  "task_doc payload attributes coordinator_id timestamp =
     [(''coordinator_id'', FsVal coordinator_id),
      (''status'', FsVal (dict_get payload ''status'' (PStr ''unknown''))),
      (''tasks_processed'', FsVal (dict_get payload ''tasks_processed'' (PInt 0))),
      (''errors'', FsVal (dict_get payload ''errors'' (PList []))),
      (''timestamp'', FsVal timestamp),
      (''event_type'', FsVal (dict_get attributes ''event_type'' (PStr ''update''))),
      (''source'', FsVal (dict_get attributes ''source'' (PStr ''pubsub''))),
      (''created_at'', SERVER_TIMESTAMP),
      (''synced'', FsVal (PBool False))]"

definition latest_status :: "pydict \<Rightarrow> (string \<times> fsval) list" where
  "latest_status payload =
     [(''last_status'', FsVal (dict_get payload ''status'' PNone)),
      (''last_update'', SERVER_TIMESTAMP),
      (''total_tasks'', Increment (dict_get payload ''tasks_processed'' (PInt 0)))]"

definition pubsub_to_firestore_try :: "services \<Rightarrow> pydict \<Rightarrow> world \<Rightarrow> (exn + unit) \<times> world" where
  "pubsub_to_firestore_try sv event w =
     (if dict_has event ''data'' then
        (case decode_message sv (dict_get event ''data'' PNone) of
           Inl exc \<Rightarrow> (Inl exc, w)
         | Inr payload \<Rightarrow>
             (case payload of
                PDict p \<Rightarrow>
                  (let coordinator_id = dict_get p ''coordinator_id'' (PStr ''unknown'');
                       (t1, w1) = now sv w;
                       timestamp = dict_get p ''timestamp'' (PStr (isoformat t1))
                   in case dict_get event ''attributes'' (PDict []) of
                        PDict a \<Rightarrow>
                          (let (t2, w2) = now sv w1;
                               doc_id = py_str sv coordinator_id @ ''_'' @
                                        py_str sv (PInt (timestamp_s t2))
                           in case invoke sv (FirestoreSet ''tasks'' (PStr doc_id)
                                                (task_doc p a coordinator_id timestamp) False) w2 of
                                (Inl exc, w3) \<Rightarrow> (Inl exc, w3)
                              | (Inr r, w3) \<Rightarrow>
                                  (case invoke sv (FirestoreSet ''coordinators'' coordinator_id
                                                     (latest_status p) True)
                                          (log ''INFO'' (''Written to Firestore: '' @ doc_id) w3) of
                                     (Inl exc, w4) \<Rightarrow> (Inl exc, w4)
                                   | (Inr r2, w4) \<Rightarrow> (Inr (), w4)))
                      | attributes \<Rightarrow>
                          (Inl (Exc AttributeError (error_text sv ''get'' attributes)), w1))
              | _ \<Rightarrow> (Inl (Exc AttributeError (error_text sv ''get'' payload)), w)))
      else (Inr (), log ''WARNING'' ''No data in Pub/Sub message'' w))"

definition pubsub_to_firestore :: "services \<Rightarrow> pydict \<Rightarrow> world \<Rightarrow> (exn + unit) \<times> world" where
  "pubsub_to_firestore sv event w =
     (case pubsub_to_firestore_try sv event w of
        (Inl exc, w1) \<Rightarrow>
          (Inl exc, log ''ERROR'' (''Error processing Pub/Sub message: '' @ exn_str exc) w1)
      | (Inr u, w1) \<Rightarrow> (Inr u, w1))"

section \<open>lambda/index.py\<close>

text \<open>
  Each helper wraps its whole body in \<open>try\<close> and turns any exception into its own return
  value; the helpers still have the type of a function that may raise, so that the callers
  are written with the branches the source has.
\<close>

definition get_secrets_try :: "config \<Rightarrow> services \<Rightarrow> world \<Rightarrow> (exn + pyval) \<times> world" where
  "get_secrets_try cf sv w =
     (case SECRETS_MANAGER_ARN cf of
        None \<Rightarrow> (Inl (Exc AttributeError (error_text sv ''split'' PNone)), w)
      | Some arn \<Rightarrow>
          (case fetch_secret sv (last (split_on CHR '':'' arn)) w of
             (Inl exc, w1) \<Rightarrow> (Inl exc, w1)
           | (Inr response, w1) \<Rightarrow>
               if dict_has response ''SecretString'' then
                 (case py_json_loads sv (dict_get response ''SecretString'' PNone) of
                    Inl exc \<Rightarrow> (Inl exc, w1)
                  | Inr secrets \<Rightarrow> (Inr secrets, w1))
               else (Inr (PDict []), log ''WARNING'' ''Secrets not found in Secrets Manager'' w1)))"

definition get_secrets :: "config \<Rightarrow> services \<Rightarrow> world \<Rightarrow> (exn + pyval) \<times> world" where
  "get_secrets cf sv w =
     (case get_secrets_try cf sv w of
        (Inl exc, w1) \<Rightarrow>
          (Inr (PDict []), log ''ERROR'' (''Error retrieving secrets: '' @ exn_str exc) w1)
      | (Inr secrets, w1) \<Rightarrow> (Inr secrets, w1))"

definition save_state_to_dynamodb ::
  "config \<Rightarrow> services \<Rightarrow> string \<Rightarrow> pydict \<Rightarrow> world \<Rightarrow> (exn + bool) \<times> world" where
  "save_state_to_dynamodb cf sv coordinator_id state w =
     (let (t1, w1) = now sv w;
          (t2, w2) = now sv w1;
          item = [(''coordinator_id'', PStr coordinator_id),
                  (''timestamp'', PInt (timestamp_ms t1)),
                  (''status'', dict_get state ''status'' (PStr ''pending'')),
                  (''data'', PStr (json_dumps sv (PDict state))),
                  (''updated_at'', PStr (isoformat t2))]
      in case invoke sv (PutItem (DYNAMODB_TABLE cf) item) w2 of
           (Inr r, w3) \<Rightarrow>
             (Inr True, log ''INFO'' (''State saved for coordinator '' @ coordinator_id) w3)
         | (Inl exc, w3) \<Rightarrow>
             (Inr False, log ''ERROR'' (''Error saving state to DynamoDB: '' @ exn_str exc) w3))"

definition upload_cache_to_s3 ::
  "config \<Rightarrow> services \<Rightarrow> string \<Rightarrow> pydict \<Rightarrow> world \<Rightarrow> (exn + bool) \<times> world" where
  "upload_cache_to_s3 cf sv key data w =
     (case invoke sv (PutObject (S3_BUCKET cf) key (json_dumps sv (PDict data))
                        ''application/json'' ''AES256'') w of
        (Inr r, w1) \<Rightarrow> (Inr True, log ''INFO'' (''Cache uploaded to S3: '' @ key) w1)
      | (Inl exc, w1) \<Rightarrow>
          (Inr False, log ''ERROR'' (''Error uploading to S3: '' @ exn_str exc) w1))"

definition publish_alert ::
  "config \<Rightarrow> services \<Rightarrow> string \<Rightarrow> string \<Rightarrow> world \<Rightarrow> (exn + bool) \<times> world" where
  "publish_alert cf sv subject message w =
     (case invoke sv (SnsPublish (SNS_TOPIC_ARN cf) subject message) w of
        (Inr r, w1) \<Rightarrow> (Inr True, log ''INFO'' (''Alert published: '' @ subject) w1)
      | (Inl exc, w1) \<Rightarrow>
          (Inr False, log ''ERROR'' (''Error publishing alert: '' @ exn_str exc) w1))"

text \<open>
  \<open>coordinate_daily_tasks\<close>. The result dict has five fixed keys. An exception leaving the
  \<open>try\<close> block carries the result dict as the block had updated it, and
  \<open>coordinate_except\<close> is the \<open>except\<close> clause.
\<close>

record results =
  coordinator_id :: string
  timestamp :: string
  status :: string
  tasks_processed :: int
  errors :: "string list"


definition coordinate_try ::
  "config \<Rightarrow> services \<Rightarrow> results \<Rightarrow> world \<Rightarrow> (exn \<times> results + results) \<times> world" where
  "coordinate_try cf sv results w =
     (case get_secrets cf sv w of
        (Inl exc, w1) \<Rightarrow> (Inl (exc, results), w1)
      | (Inr secrets, w1) \<Rightarrow>
          (let w2 = log ''INFO'' ''Secrets retrieved successfully'' w1;
               state_data = [(''status'', PStr ''running''),
                             (''last_run'', PStr (timestamp results)),
                             (''tasks_count'', PInt 5)]
           in case save_state_to_dynamodb cf sv (coordinator_id results) state_data w2 of
                (Inl exc, w3) \<Rightarrow> (Inl (exc, results), w3)
              | (Inr saved, w3) \<Rightarrow>
                  (let results1 =
                         (if saved then results\<lparr>tasks_processed := tasks_processed results + 1\<rparr>
                          else results\<lparr>errors := errors results @ [''Failed to save state to DynamoDB'']\<rparr>);
                       cache_data = [(''timestamp'', PStr (timestamp results)),
                                     (''coordinator_id'', PStr (coordinator_id results)),
                                     (''cache_entries'', PInt 10),
                                     (''status'', PStr ''cached'')];
                       (today, w4) = now sv w3;
                       cache_key = ''cache/'' @ coordinator_id results @ ''/'' @ date_str today @ ''.json''
                   in case upload_cache_to_s3 cf sv cache_key cache_data w4 of
                        (Inl exc, w5) \<Rightarrow> (Inl (exc, results1), w5)
                      | (Inr uploaded, w5) \<Rightarrow>
                          (let results2 =
                                 (if uploaded
                                  then results1\<lparr>tasks_processed := tasks_processed results1 + 1\<rparr>
                                  else results1\<lparr>errors := errors results1 @ [''Failed to upload cache to S3'']\<rparr>)
                           in case save_state_to_dynamodb cf sv (coordinator_id results)
                                     (AList.update ''status'' (PStr ''completed'') state_data) w5 of
                                (Inl exc, w6) \<Rightarrow> (Inl (exc, results2), w6)
                              | (Inr saved2, w6) \<Rightarrow>
                                  (case (if errors results2 \<noteq> [] then
                                           publish_alert cf sv ''Daily Coordinator - Partial Success''
                                             (''Daily Coordinator completed with '' @
                                              py_str sv (PInt (int (length (errors results2)))) @
                                              '' errors:'' @ [CHR 0x0A] @
                                              join [CHR 0x0A] (errors results2)) w6
                                         else
                                           publish_alert cf sv ''Daily Coordinator - Success''
                                             (''Daily coordination completed successfully at '' @
                                              timestamp results) w6) of
                                     (Inl exc, w7) \<Rightarrow> (Inl (exc, results2), w7)
                                   | (Inr published, w7) \<Rightarrow> (Inr results2, w7))))))"

definition initial_results :: "string \<Rightarrow> results" where
  "initial_results ts =
     \<lparr>coordinator_id = ''daily-coordinator-001'', timestamp = ts, status = ''success'',
      tasks_processed = 0, errors = []\<rparr>"

definition coordinate_except ::
  "config \<Rightarrow> services \<Rightarrow> exn \<Rightarrow> results \<Rightarrow> world \<Rightarrow> (exn + results) \<times> world" where
  "coordinate_except cf sv exc results w =
     (let w1 = log ''ERROR'' (''Error in coordinate_daily_tasks: '' @ exn_str exc) w;
          results1 = results\<lparr>status := ''failed'', errors := errors results @ [exn_str exc]\<rparr>
      in case publish_alert cf sv ''Daily Coordinator - Failed'' (''Error: '' @ exn_str exc) w1 of
           (Inl exc2, w2) \<Rightarrow> (Inl exc2, w2)
         | (Inr published, w2) \<Rightarrow> (Inr results1, w2))"

definition coordinate_daily_tasks :: "config \<Rightarrow> services \<Rightarrow> world \<Rightarrow> (exn + results) \<times> world" where
  "coordinate_daily_tasks cf sv w =
     (let (t, w0) = now sv w
      in case coordinate_try cf sv (initial_results (isoformat t)) w0 of
           (Inr results, w1) \<Rightarrow> (Inr results, w1)
         | (Inl (exc, results), w1) \<Rightarrow> coordinate_except cf sv exc results w1)"


section \<open>Notions used to state the properties\<close>

text \<open>
  The first of the keys \<open>ks\<close> whose value in \<open>d\<close> is true, which is what a chain
  \<open>d.get(k1) or d.get(k2) or dflt\<close> computes, and the first of the keys that is present
  at all.
\<close>

fun first_truthy :: "pydict \<Rightarrow> string list \<Rightarrow> pyval \<Rightarrow> pyval" where
  "first_truthy d [] dflt = dflt"
| "first_truthy d (k # ks) dflt =
     (if truthy (dict_get d k PNone) then dict_get d k PNone else first_truthy d ks dflt)"

fun first_present :: "pydict \<Rightarrow> string list \<Rightarrow> pyval \<Rightarrow> pyval" where
  "first_present d [] dflt = dflt"
| "first_present d (k # ks) dflt =
     (case map_of d k of Some v \<Rightarrow> v | None \<Rightarrow> first_present d ks dflt)"

text \<open>
  The summary of a direct invocation by the first true value, and the same by the first
  present key. The decoding of the message of a notification: the dict it decodes to,
  nothing when it is not a str, is not JSON or decodes to another value, and the exception
  when \<open>json.loads\<close> raises another one than \<open>JSONDecodeError\<close>. The summary of the
  \<open>Sns\<close> entry of a notification record, or the exception that leaves the function.
\<close>

definition direct_summary :: "pydict \<Rightarrow> pydict" where
  "direct_summary d =
     [(''task'', first_truthy d [''task_name'', ''task'', ''coordinator_id''] (PStr ''Daily Coordinator'')),
      (''status'', first_truthy d [''status''] (PStr ''updated'')),
      (''details'', first_truthy d [''details'', ''message''] PNone),
      (''subject'', PNone)]"

definition stated_summary :: "pydict \<Rightarrow> pydict" where
  "stated_summary d =
     [(''task'', first_present d [''task_name'', ''task'', ''coordinator_id''] (PStr ''Daily Coordinator'')),
      (''status'', first_present d [''status''] (PStr ''updated'')),
      (''details'', first_present d [''details'', ''message''] PNone),
      (''subject'', PNone)]"

definition decoded_message :: "services \<Rightarrow> pyval \<Rightarrow> exn + pydict option" where
  "decoded_message sv message =
     (case message of
        PStr s \<Rightarrow>
          (case json_loads sv s of
             Inr (PDict decoded) \<Rightarrow> Inr (Some decoded)
           | Inr v \<Rightarrow> Inr None
           | Inl (Exc JSONDecodeError m) \<Rightarrow> Inr None
           | Inl exc \<Rightarrow> Inl exc)
      | _ \<Rightarrow> Inr None)"

definition sns_summary :: "services \<Rightarrow> pydict \<Rightarrow> exn + pydict" where
  "sns_summary sv sns =
     (let message = dict_get sns ''Message'' PNone in
      case decoded_message sv message of
        Inl exc \<Rightarrow> Inl exc
      | Inr (Some decoded) \<Rightarrow>
          Inr [(''task'', first_truthy decoded [''task_name'', ''task''] (PStr ''Daily Coordinator'')),
               (''status'', first_truthy decoded [''status''] (PStr ''updated'')),
               (''details'', first_truthy decoded [''details'', ''message''] message),
               (''subject'', dict_get sns ''Subject'' PNone)]
      | Inr None \<Rightarrow>
          Inr [(''task'', PStr ''Daily Coordinator''),
               (''status'', PStr ''updated''),
               (''details'', message),
               (''subject'', dict_get sns ''Subject'' PNone)])"

text \<open>A record that the loops over \<open>Records\<close> pass by: a dict from another event source.\<close>

fun other_source :: "pyval \<Rightarrow> bool" where
  "other_source (PDict r) = (dict_get r ''EventSource'' PNone \<noteq> PStr ''aws:sns'')"
| "other_source v = False"

text \<open>The states of the process in which the sends to the recipients \<open>rs\<close> start.\<close>

fun send_states :: "config \<Rightarrow> services \<Rightarrow> pyval \<Rightarrow> string list \<Rightarrow> world \<Rightarrow> world list" where
  "send_states cf sv event_data [] w = []"
| "send_states cf sv event_data (recipient # rest) w =
     w # send_states cf sv event_data rest
           (snd (send_whatsapp_alert cf sv event_data (whatsapp_format recipient) w))"

definition send_entries :: "config \<Rightarrow> services \<Rightarrow> pyval \<Rightarrow> string list \<Rightarrow> world \<Rightarrow> pyval list" where
  "send_entries cf sv event_data rs w =
     map (\<lambda>(recipient, wi).
            result_entry (whatsapp_format recipient)
              (fst (send_whatsapp_alert cf sv event_data (whatsapp_format recipient) wi)))
         (zip rs (send_states cf sv event_data rs w))"

text \<open>Whether a request succeeds after a history of requests.\<close>

definition succeeds :: "services \<Rightarrow> call list \<Rightarrow> call \<Rightarrow> bool" where
  "succeeds sv history c = (case respond sv history c of Inr r \<Rightarrow> True | Inl exc \<Rightarrow> False)"

text \<open>
  The two writes of the document-sync handler for a payload \<open>p\<close> and attributes \<open>a\<close>,
  started in the state \<open>w\<close>: the record in \<open>tasks\<close>, whose document id joins the
  coordinator id and the second clock reading, and the merge into \<open>coordinators\<close>.
\<close>

definition record_write :: "services \<Rightarrow> pydict \<Rightarrow> pydict \<Rightarrow> world \<Rightarrow> call" where
  "record_write sv p a w =
     FirestoreSet ''tasks''
       (PStr (py_str sv (dict_get p ''coordinator_id'' (PStr ''unknown'')) @ ''_'' @
              py_str sv (PInt (timestamp_s (utcnow sv (Suc (ticks w)))))))
       (task_doc p a (dict_get p ''coordinator_id'' (PStr ''unknown''))
          (dict_get p ''timestamp'' (PStr (isoformat (utcnow sv (ticks w))))))
       False"

definition merge_write :: "pydict \<Rightarrow> call" where
  "merge_write p =
     FirestoreSet ''coordinators'' (dict_get p ''coordinator_id'' (PStr ''unknown''))
       [(''last_status'', FsVal (dict_get p ''status'' PNone)),
        (''last_update'', SERVER_TIMESTAMP),
        (''total_tasks'', Increment (dict_get p ''tasks_processed'' (PInt 0)))]
       True"

section \<open>A concrete deployment\<close>

text \<open>
  A configuration, a fresh process and services in which the secret store holds a raw
  webhook URL, Twilio credentials and an empty secret for the coordinator, the blob store
  refuses uploads, the messaging API accepts one number only and every other request
  succeeds.
\<close>

definition example_config :: config where
  "example_config =
     \<lparr>SLACK_SECRET_NAME = Some ''slack/webhook'', SLACK_SECRET_KEY = ''slack_webhook_url'',
      TWILIO_SECRET_NAME = Some ''twilio/credentials'', twilio_imported = True,
      WHATSAPP_FROM = ''whatsapp:+14155238886'',
      WHATSAPP_TO = Some ''+15550001, whatsapp:+15550002'',
      GCP_PUBSUB_SECRET_NAME = Some ''gcp/pubsub'', GCP_PROJECT_ID = Some ''demo-project'',
      GCP_PUBSUB_TOPIC = ''daily-coordinator-events'', pubsub_imported = True,
      DYNAMODB_TABLE = Some ''coordinator-state'', S3_BUCKET = Some ''coordinator-cache'',
      SNS_TOPIC_ARN = Some ''arn:aws:sns:us-east-1:123456789012:alerts'',
      SECRETS_MANAGER_ARN = Some ''arn:aws:secretsmanager:us-east-1:123456789012:secret:coordinator''\<rparr>"

definition fresh_process :: world where
  "fresh_process =
     \<lparr>calls = [], logs = [], ticks = 0, cached_webhook = PNone, twilio_client = None,
      publisher_client = None\<rparr>"

definition example_secrets :: "call list \<Rightarrow> string \<Rightarrow> exn + pydict" where
  \<open>example_secrets history name =
     (if name = ''slack/webhook'' then
        Inr [(''SecretString'', PStr ''https://hooks.slack.com/services/T0/B0/X0'')]
      else if name = ''twilio/credentials'' then
        Inr [(''SecretString'', PStr ''{"account_sid": "AC1", "auth_token": "t0"}'')]
      else if name = ''coordinator'' then
        Inr [(''SecretString'', PStr ''{}'')]
      else Inl (Exc ServiceError ''ResourceNotFoundException''))\<close>

definition example_respond :: "call list \<Rightarrow> call \<Rightarrow> exn + pyval" where
  "example_respond history c =
     (case c of
        PutObject bucket key body content_type encryption \<Rightarrow> Inl (Exc ServiceError ''AccessDenied'')
      | MessagesCreate account_sid auth_token sender recipient body \<Rightarrow>
          if recipient = ''whatsapp:+15550001'' then Inr (PStr ''SM1'')
          else Inl (Exc ServiceError ''Invalid number'')
      | _ \<Rightarrow> Inr PNone)"

text \<open>
  The library functions of the examples are those of CPython 3.11 on the inputs that occur
  in the statements below, and arbitrary on others: decimal numerals, \<open>json.dumps\<close>
  for values without floats whose strs are plain ASCII characters, \<open>str\<close> of None, a
  bool, an int and a str, \<open>upper\<close>, \<open>strip\<close> and the characters of an ASCII
  str, the messages of the built-in exceptions, and tables for \<open>json.loads\<close> and
  for base64. In the base64 table \<open>W10=\<close> and the long text are encodings,
  \<open>!\<close> has no character of the alphabet and decodes to the empty str, and any other
  input stands for a text that lacks its padding, as \<open>AA\<close> does. In the
  \<open>json.loads\<close> table a text of more than 4300 ones is an integer beyond the
  conversion limit.
\<close>

function show_nat :: "nat \<Rightarrow> string" where
  "show_nat n =
     (if n < 10 then [''0123456789'' ! n]
      else show_nat (n div 10) @ [''0123456789'' ! (n mod 10)])"
  by pat_completeness auto
termination
  by (relation "measure id") auto

declare show_nat.simps [simp del]

definition show_int :: "int \<Rightarrow> string" where
  "show_int i = (if i < 0 then ''-'' @ show_nat (nat (- i)) else show_nat (nat i))"

definition quoted :: "string \<Rightarrow> string" where
  "quoted s = [CHR 0x22] @ s @ [CHR 0x22]"

fun example_json_dumps :: "pyval \<Rightarrow> string" where
  "example_json_dumps PNone = ''null''"
| "example_json_dumps (PBool b) = (if b then ''true'' else ''false'')"
| "example_json_dumps (PInt i) = show_int i"
| "example_json_dumps (PFloat r) = ''0.0''"
| "example_json_dumps (PStr s) = quoted s"
| "example_json_dumps (PList xs) = ''['' @ join '', '' (map example_json_dumps xs) @ '']''"
| "example_json_dumps (PDict d) =
     ''{'' @ join '', '' (map (\<lambda>(k, v). quoted k @ '': '' @ example_json_dumps v) d) @ ''}''"

fun example_str :: "pyval \<Rightarrow> string" where
  "example_str PNone = ''None''"
| "example_str (PBool b) = (if b then ''True'' else ''False'')"
| "example_str (PInt i) = show_int i"
| "example_str (PStr s) = s"
| "example_str v = example_json_dumps v"

definition example_upper :: "string \<Rightarrow> string" where
  "example_upper s =
     map (\<lambda>c. case map_of (zip ''abcdefghijklmnopqrstuvwxyz'' ''ABCDEFGHIJKLMNOPQRSTUVWXYZ'') c of
               None \<Rightarrow> c
             | Some u \<Rightarrow> u) s"

definition example_space :: "char \<Rightarrow> bool" where
  "example_space c =
     (c \<in> {CHR '' '', CHR 0x09, CHR 0x0A, CHR 0x0B, CHR 0x0C, CHR 0x0D,
           CHR 0x1C, CHR 0x1D, CHR 0x1E, CHR 0x1F})"

definition example_strip :: "string \<Rightarrow> string" where
  "example_strip s = rev (dropWhile example_space (rev (dropWhile example_space s)))"

fun type_name :: "pyval \<Rightarrow> string" where
  "type_name PNone = ''NoneType''"
| "type_name (PBool b) = ''bool''"
| "type_name (PInt i) = ''int''"
| "type_name (PFloat r) = ''float''"
| "type_name (PStr s) = ''str''"
| "type_name (PList xs) = ''list''"
| "type_name (PDict d) = ''dict''"

definition apostrophes :: "string \<Rightarrow> string" where
  "apostrophes s = [CHR 0x27] @ s @ [CHR 0x27]"

definition example_error_text :: "string \<Rightarrow> pyval \<Rightarrow> string" where
  "example_error_text operation v =
     (if operation = ''len'' then
        ''object of type '' @ apostrophes (type_name v) @ '' has no len()''
      else if operation = ''iter'' then
        apostrophes (type_name v) @ '' object is not iterable''
      else if operation = ''hash'' then
        ''unhashable type: '' @ apostrophes (type_name v)
      else if operation = ''getitem'' then
        (case v of
           PList xs \<Rightarrow> ''list indices must be integers or slices, not str''
         | PStr s \<Rightarrow> ''string indices must be integers, not '' @ apostrophes ''str''
         | _ \<Rightarrow> apostrophes (type_name v) @ '' object is not subscriptable'')
      else if operation = ''json.loads'' then
        ''the JSON object must be str, bytes or bytearray, not '' @ type_name v
      else
        apostrophes (type_name v) @ '' object has no attribute '' @ apostrophes operation)"

definition example_json_loads :: "string \<Rightarrow> exn + pyval" where
  \<open>example_json_loads s =
     (if 4300 < length s \<and> list_all (\<lambda>c. c = CHR ''1'') s then
        Inl (Exc ValueError
               (''Exceeds the limit (4300 digits) for integer string conversion: value has '' @
                show_nat (length s) @
                '' digits; use sys.set_int_max_str_digits() to increase the limit''))
      else if s = ''{"account_sid": "AC1", "auth_token": "t0"}'' then
        Inr (PDict [(''account_sid'', PStr ''AC1''), (''auth_token'', PStr ''t0'')])
      else if s = ''{"coordinator_id": "daily-coordinator-001", "status": "success", "tasks_processed": 2}'' then
        Inr (PDict [(''coordinator_id'', PStr ''daily-coordinator-001''),
                    (''status'', PStr ''success''), (''tasks_processed'', PInt 2)])
      else if s = ''{"task": "backup", "status": ""}'' then
        Inr (PDict [(''task'', PStr ''backup''), (''status'', PStr [])])
      else if s = ''{}'' then Inr (PDict [])
      else if s = ''[]'' then Inr (PList [])
      else Inl (Exc JSONDecodeError ''Expecting value: line 1 column 1 (char 0)''))\<close>

definition example_b64decode_utf8 :: "pyval \<Rightarrow> exn + string" where
  \<open>example_b64decode_utf8 v =
     (if v = PStr ''W10='' then Inr ''[]''
      else if v = PStr (''eyJjb29yZGluYXRvcl9pZCI6ICJkYWlseS1jb29yZGluYXRvci0wMDEiLCAic3RhdHVzIjog'' @
                        ''InN1Y2Nlc3MiLCAidGFza3NfcHJvY2Vzc2VkIjogMn0='') then
        Inr ''{"coordinator_id": "daily-coordinator-001", "status": "success", "tasks_processed": 2}''
      else if v = PStr ''!'' then Inr []
      else Inl (Exc ValueError ''Incorrect padding''))\<close>

definition example_services :: services where
  "example_services =
     \<lparr>respond = example_respond,
      get_secret_value = example_secrets,
      utcnow = (\<lambda>n. \<lparr>isoformat = ''2024-01-01T00:00:00'', timestamp_s = 1704067200,
                       timestamp_ms = 1704067200000, date_str = ''2024-01-01''\<rparr>),
      json_loads = example_json_loads,
      json_dumps = example_json_dumps,
      py_str = example_str,
      str_upper = example_upper,
      str_strip = example_strip,
      str_chars = map (\<lambda>c. [c]),
      b64decode_utf8 = example_b64decode_utf8,
      error_text = example_error_text\<rparr>"

text \<open>The same services with the document store, and with every service, out of reach.\<close>

definition firestore_down :: services where
  "firestore_down =
     example_services\<lparr>respond := (\<lambda>history c. Inl (Exc ServiceError ''DeadlineExceeded''))\<rparr>"

definition all_down :: services where
  "all_down =
     example_services
       \<lparr>respond := (\<lambda>history c. Inl (Exc ServiceError ''EndpointConnectionError'')),
        get_secret_value := (\<lambda>history name. Inl (Exc ServiceError ''EndpointConnectionError''))\<rparr>"

text \<open>
  The document store accepting a record and refusing a merge; and the Pub/Sub event of a
  successful run with two processed tasks, with the payload its data decodes to.
\<close>

definition merge_refused :: services where
  "merge_refused =
     example_services
       \<lparr>respond := (\<lambda>history c.
          case c of
            FirestoreSet collection document data merge \<Rightarrow>
              if merge then Inl (Exc ServiceError ''PermissionDenied'') else Inr PNone
          | _ \<Rightarrow> Inr PNone)\<rparr>"

definition success_event :: pydict where
  "success_event =
     [(''data'',
       PStr (''eyJjb29yZGluYXRvcl9pZCI6ICJkYWlseS1jb29yZGluYXRvci0wMDEiLCAic3RhdHVzIjog'' @
             ''InN1Y2Nlc3MiLCAidGFza3NfcHJvY2Vzc2VkIjogMn0=''))]"

definition success_payload :: pydict where
  "success_payload =
     [(''coordinator_id'', PStr ''daily-coordinator-001''), (''status'', PStr ''success''),
      (''tasks_processed'', PInt 2)]"

text \<open>The example services with every request accepted.\<close>

definition all_accepting :: services where
  "all_accepting = example_services\<lparr>respond := (\<lambda>history c. Inr PNone)\<rparr>"

section \<open>The secret is fetched once\<close>

lemma load_webhook_url_Inr:
  "load_webhook_url cf sv w = (Inr url, w1) \<Longrightarrow> cached_webhook w1 = url \<and> truthy url"
  unfolding load_webhook_url_def fetch_secret_def log_def Let_def
  by (auto split: if_splits option.splits sum.splits prod.splits exn.splits exc_class.splits
        pyval.splits)

lemma get_twilio_client_try_Inr:
  "get_twilio_client_try sv name w = (Inr client, w1) \<Longrightarrow> twilio_client w1 = Some client"
  unfolding get_twilio_client_try_def fetch_secret_def log_def Let_def
  by (auto split: if_splits sum.splits prod.splits)

lemma get_twilio_client_Inr:
  "get_twilio_client cf sv w = (Inr client, w1) \<Longrightarrow> twilio_client w1 = Some client"
  unfolding get_twilio_client_def
  by (auto split: if_splits option.splits sum.splits prod.splits dest: get_twilio_client_try_Inr)

text \<open>
  C4. Once \<open>_load_webhook_url\<close> has returned a webhook URL, a call in any later state of
  the process that still holds the cache returns the same URL and leaves the state as it
  is: no request is added to the history, whatever the configuration and the services
  have become. Only \<open>_load_webhook_url\<close> assigns \<open>_cached_webhook\<close>, so every later
  state holds it. The same is true of \<open>_get_twilio_client\<close> and its client.
\<close>

theorem secret_fetched_once:
  "(load_webhook_url cf sv w = (Inr url, w1) \<and> cached_webhook w2 = cached_webhook w1
      \<longrightarrow> load_webhook_url cf' sv' w2 = (Inr url, w2))
   \<and> (get_twilio_client cf sv w = (Inr client, w1) \<and> twilio_client w2 = twilio_client w1
      \<longrightarrow> get_twilio_client cf' sv' w2 = (Inr client, w2))"
proof (intro conjI impI)
  assume "load_webhook_url cf sv w = (Inr url, w1) \<and> cached_webhook w2 = cached_webhook w1"
  then have "cached_webhook w2 = url" and "truthy url"
    using load_webhook_url_Inr by auto
  then show "load_webhook_url cf' sv' w2 = (Inr url, w2)"
    by (simp add: load_webhook_url_def)
next
  assume "get_twilio_client cf sv w = (Inr client, w1) \<and> twilio_client w2 = twilio_client w1"
  then have "twilio_client w2 = Some client"
    using get_twilio_client_Inr by auto
  then show "get_twilio_client cf' sv' w2 = (Inr client, w2)"
    by (simp add: get_twilio_client_def)
qed

text \<open>
  In the example deployment the first call fetches the secret; the second call, made after
  an unrelated request and with the secret store out of reach, returns the same value.
\<close>

theorem secret_fetched_once_witness:
  "load_webhook_url example_config example_services fresh_process =
     (Inr (PStr ''https://hooks.slack.com/services/T0/B0/X0''),
      fresh_process\<lparr>calls := [GetSecretValue ''slack/webhook''],
                     cached_webhook := PStr ''https://hooks.slack.com/services/T0/B0/X0''\<rparr>)
   \<and> load_webhook_url example_config all_down
        (fresh_process\<lparr>calls := [GetSecretValue ''slack/webhook'', SnsPublish None ''s'' ''m''],
                       cached_webhook := PStr ''https://hooks.slack.com/services/T0/B0/X0''\<rparr>) =
     (Inr (PStr ''https://hooks.slack.com/services/T0/B0/X0''),
      fresh_process\<lparr>calls := [GetSecretValue ''slack/webhook'', SnsPublish None ''s'' ''m''],
                     cached_webhook := PStr ''https://hooks.slack.com/services/T0/B0/X0''\<rparr>)
   \<and> get_twilio_client example_config example_services fresh_process =
     (Inr (Client (PStr ''AC1'') (PStr ''t0'')),
      fresh_process\<lparr>calls := [GetSecretValue ''twilio/credentials''],
                     logs := [(''INFO'', ''Twilio client initialized'')],
                     twilio_client := Some (Client (PStr ''AC1'') (PStr ''t0''))\<rparr>)
   \<and> get_twilio_client example_config all_down
        (fresh_process\<lparr>calls := [GetSecretValue ''twilio/credentials''],
                     logs := [(''INFO'', ''Twilio client initialized'')],
                     twilio_client := Some (Client (PStr ''AC1'') (PStr ''t0''))\<rparr>) =
     (Inr (Client (PStr ''AC1'') (PStr ''t0'')),
      fresh_process\<lparr>calls := [GetSecretValue ''twilio/credentials''],
                     logs := [(''INFO'', ''Twilio client initialized'')],
                     twilio_client := Some (Client (PStr ''AC1'') (PStr ''t0''))\<rparr>)"
proof -
  let ?url = "PStr ''https://hooks.slack.com/services/T0/B0/X0''"
  let ?w1 = "fresh_process\<lparr>calls := [GetSecretValue ''slack/webhook''], cached_webhook := ?url\<rparr>"
  let ?w2 = "fresh_process\<lparr>calls := [GetSecretValue ''slack/webhook'', SnsPublish None ''s'' ''m''],
                            cached_webhook := ?url\<rparr>"
  let ?client = "Client (PStr ''AC1'') (PStr ''t0'')"
  let ?v1 = "fresh_process\<lparr>calls := [GetSecretValue ''twilio/credentials''],
                            logs := [(''INFO'', ''Twilio client initialized'')],
                            twilio_client := Some ?client\<rparr>"
  have slack: "load_webhook_url example_config example_services fresh_process = (Inr ?url, ?w1)"
    by (simp add: load_webhook_url_def fetch_secret_def example_config_def example_services_def
          example_secrets_def example_json_loads_def fresh_process_def dict_get_def Let_def)
  have twilio: "get_twilio_client example_config example_services fresh_process = (Inr ?client, ?v1)"
    by (simp add: get_twilio_client_def get_twilio_client_try_def fetch_secret_def log_def
          example_config_def example_services_def example_secrets_def example_json_loads_def
          fresh_process_def dict_get_def Let_def)
  have cache: "cached_webhook ?w2 = cached_webhook ?w1" "twilio_client ?v1 = twilio_client ?v1"
    by simp_all
  from secret_fetched_once [of example_config example_services fresh_process ?url ?w1 ?w2
        example_config all_down] slack cache
  have "load_webhook_url example_config all_down ?w2 = (Inr ?url, ?w2)"
    by blast
  moreover
  from secret_fetched_once [where cf = example_config and sv = example_services
        and w = fresh_process and client = ?client and ?w1.0 = ?v1 and ?w2.0 = ?v1
        and cf' = example_config and sv' = all_down] twilio
  have "get_twilio_client example_config all_down ?v1 = (Inr ?client, ?v1)"
    by blast
  ultimately show ?thesis using slack twilio by simp
qed

section \<open>The summary of an event\<close>

lemma extract_records_skip:
  "list_all other_source before \<Longrightarrow>
   extract_records sv s (before @ rest) = extract_records sv s rest"
proof (induction before)
  case Nil
  show ?case by simp
next
  case (Cons x xs)
  then obtain r where "x = PDict r" and "dict_get r ''EventSource'' PNone \<noteq> PStr ''aws:sns''"
    by (cases x) auto
  with Cons show ?case by simp
qed

lemma extract_sns_summary:
  "dict_get r ''Sns'' (PDict []) = PDict sns \<Longrightarrow>
   extract_sns sv summary0 (PDict r) = sns_summary sv sns"
  by (simp add: extract_sns_def sns_summary_def decoded_message_def summary0_def Let_def
        py_or_def dict_get_def
      split: pyval.splits sum.splits exn.splits exc_class.splits)

lemma extract_direct:
  "\<not> dict_has d ''Records'' \<Longrightarrow> extract_summary sv (PDict d) = Inr (direct_summary d)"
  by (simp add: extract_summary_def direct_summary_def summary0_def Let_def py_or_def dict_get_def)

lemma extract_envelope:
  assumes "dict_has d ''Records''"
    and "py_iter sv (dict_get d ''Records'' PNone) = Inr (before @ PDict r # after)"
    and "list_all other_source before"
    and "dict_get r ''EventSource'' PNone = PStr ''aws:sns''"
    and "dict_get r ''Sns'' (PDict []) = PDict sns"
  shows "extract_summary sv (PDict d) = sns_summary sv sns"
proof -
  have "extract_summary sv (PDict d) = extract_records sv summary0 (before @ PDict r # after)"
    using assms(1,2) by (simp add: extract_summary_def)
  also have "\<dots> = extract_records sv summary0 (PDict r # after)"
    using assms(3) by (simp add: extract_records_skip)
  also have "\<dots> = extract_sns sv summary0 (PDict r)"
    using assms(4) by simp
  also have "\<dots> = sns_summary sv sns"
    using assms(5) by (simp add: extract_sns_summary)
  finally show ?thesis .
qed

text \<open>
  C5, as stated: the task, the status and the details of a direct invocation are the
  values of the first key present. An event with an empty \<open>task_name\<close> and a
  \<open>task\<close> refutes it: the source chains the lookups with \<open>or\<close>, which passes over a
  key whose value is empty, and the summary names the \<open>task\<close>.
\<close>

theorem extract_summary_first_present_counterexample:
  "extract_summary example_services
     (PDict [(''task_name'', PStr []), (''task'', PStr ''nightly-sync'')])
   \<noteq> Inr (stated_summary [(''task_name'', PStr []), (''task'', PStr ''nightly-sync'')])"
  by (simp add: extract_summary_def stated_summary_def summary0_def dict_has_def dict_get_def
        py_or_def Let_def)

text \<open>
  C5, amended. For a dict without \<open>Records\<close> the summary has the first true value
  among \<open>task_name\<close>, \<open>task\<close>, \<open>coordinator_id\<close> (else \<open>Daily Coordinator\<close>) as its
  task, the status if it is true (else \<open>updated\<close>), the first true value among
  \<open>details\<close>, \<open>message\<close> (else None) as its details, and no subject. For a dict with
  \<open>Records\<close>, when the records before the first \<open>aws:sns\<close> record are dicts and the
  \<open>Sns\<close> entry of that record is a dict, the subject and the details are the
  \<open>Subject\<close> and the \<open>Message\<close> of the entry; when the message is a str that decodes
  to a dict, the first true value among its \<open>task_name\<close>, \<open>task\<close>, its \<open>status\<close>
  and the first true value among its \<open>details\<close>, \<open>message\<close> replace the default task,
  the default status and the raw message. When the message is a str on which
  \<open>json.loads\<close> raises another exception than \<open>JSONDecodeError\<close>, no summary is
  returned: that exception leaves \<open>_extract_summary\<close> (the third part states this
  case of the second by itself).
\<close>

theorem extract_summary_first_truthy:
  "(\<not> dict_has d ''Records'' \<longrightarrow> extract_summary sv (PDict d) = Inr (direct_summary d))
   \<and> (dict_has d ''Records''
        \<and> py_iter sv (dict_get d ''Records'' PNone) = Inr (before @ PDict r # after)
        \<and> list_all other_source before
        \<and> dict_get r ''EventSource'' PNone = PStr ''aws:sns''
        \<and> dict_get r ''Sns'' (PDict []) = PDict sns
      \<longrightarrow> extract_summary sv (PDict d) = sns_summary sv sns)
   \<and> (dict_has d ''Records''
        \<and> py_iter sv (dict_get d ''Records'' PNone) = Inr (before @ PDict r # after)
        \<and> list_all other_source before
        \<and> dict_get r ''EventSource'' PNone = PStr ''aws:sns''
        \<and> dict_get r ''Sns'' (PDict []) = PDict sns
        \<and> dict_get sns ''Message'' PNone = PStr s
        \<and> json_loads sv s = Inl (Exc c m) \<and> c \<noteq> JSONDecodeError
      \<longrightarrow> extract_summary sv (PDict d) = Inl (Exc c m))"
proof (intro conjI impI)
  assume "\<not> dict_has d ''Records''"
  then show "extract_summary sv (PDict d) = Inr (direct_summary d)"
    by (rule extract_direct)
next
  assume "dict_has d ''Records''
        \<and> py_iter sv (dict_get d ''Records'' PNone) = Inr (before @ PDict r # after)
        \<and> list_all other_source before
        \<and> dict_get r ''EventSource'' PNone = PStr ''aws:sns''
        \<and> dict_get r ''Sns'' (PDict []) = PDict sns"
  then show "extract_summary sv (PDict d) = sns_summary sv sns"
    by (simp add: extract_envelope)
next
  assume a: "dict_has d ''Records''
        \<and> py_iter sv (dict_get d ''Records'' PNone) = Inr (before @ PDict r # after)
        \<and> list_all other_source before
        \<and> dict_get r ''EventSource'' PNone = PStr ''aws:sns''
        \<and> dict_get r ''Sns'' (PDict []) = PDict sns
        \<and> dict_get sns ''Message'' PNone = PStr s
        \<and> json_loads sv s = Inl (Exc c m) \<and> c \<noteq> JSONDecodeError"
  then have "extract_summary sv (PDict d) = sns_summary sv sns"
    by (simp add: extract_envelope)
  also have "\<dots> = Inl (Exc c m)"
    using a by (cases c) (simp_all add: sns_summary_def decoded_message_def)
  finally show "extract_summary sv (PDict d) = Inl (Exc c m)" .
qed

text \<open>
  A direct invocation with an empty \<open>task_name\<close>; an envelope whose second record is
  the notification, with a message that decodes to a dict with an empty status; and an
  envelope whose message is an integer of 4301 digits, on which \<open>json.loads\<close> raises
  a \<open>ValueError\<close> that leaves the function.
\<close>

theorem extract_summary_first_truthy_witness:
  \<open>\<not> dict_has [(''task_name'', PStr []), (''task'', PStr ''nightly-sync''),
                 (''message'', PStr ''3 tables'')] ''Records''
   \<and> extract_summary example_services
        (PDict [(''task_name'', PStr []), (''task'', PStr ''nightly-sync''),
                (''message'', PStr ''3 tables'')]) =
      Inr [(''task'', PStr ''nightly-sync''), (''status'', PStr ''updated''),
           (''details'', PStr ''3 tables''), (''subject'', PNone)]
   \<and> extract_summary example_services
        (PDict [(''Records'',
                 PList [PDict [(''EventSource'', PStr ''aws:s3'')],
                        PDict [(''EventSource'', PStr ''aws:sns''),
                               (''Sns'', PDict [(''Subject'', PStr ''Nightly''),
                                  (''Message'', PStr ''{"task": "backup", "status": ""}'')])]])]) =
      Inr [(''task'', PStr ''backup''), (''status'', PStr ''updated''),
           (''details'', PStr ''{"task": "backup", "status": ""}''),
           (''subject'', PStr ''Nightly'')]
   \<and> extract_summary example_services
        (PDict [(''Records'',
                 PList [PDict [(''EventSource'', PStr ''aws:sns''),
                               (''Sns'', PDict [(''Message'',
                                  PStr (replicate 4301 (CHR ''1'')))])]])]) =
      Inl (Exc ValueError
             (''Exceeds the limit (4300 digits) for integer string conversion: value has '' @
              ''4301 digits; use sys.set_int_max_str_digits() to increase the limit''))\<close>
proof -
  let ?d = "[(''task_name'', PStr []), (''task'', PStr ''nightly-sync''),
             (''message'', PStr ''3 tables'')]"
  let ?sns = \<open>[(''Subject'', PStr ''Nightly''),
               (''Message'', PStr ''{"task": "backup", "status": ""}'')]\<close>
  let ?r = "[(''EventSource'', PStr ''aws:sns''), (''Sns'', PDict ?sns)]"
  let ?before = "[PDict [(''EventSource'', PStr ''aws:s3'')]]"
  let ?e = "[(''Records'', PList (?before @ PDict ?r # []))]"
  let ?big = "[(''Message'', PStr (replicate 4301 (CHR ''1'')))]"
  let ?rb = "[(''EventSource'', PStr ''aws:sns''), (''Sns'', PDict ?big)]"
  let ?eb = "[(''Records'', PList ([] @ PDict ?rb # []))]"
  have direct: "\<not> dict_has ?d ''Records''"
    by (simp add: dict_has_def)
  have wrapped: "dict_has ?e ''Records''
        \<and> py_iter example_services (dict_get ?e ''Records'' PNone) =
            Inr (?before @ PDict ?r # [])
        \<and> list_all other_source ?before
        \<and> dict_get ?r ''EventSource'' PNone = PStr ''aws:sns''
        \<and> dict_get ?r ''Sns'' (PDict []) = PDict ?sns"
    by (simp add: dict_has_def dict_get_def)
  have raising: "dict_has ?eb ''Records''
        \<and> py_iter example_services (dict_get ?eb ''Records'' PNone) = Inr ([] @ PDict ?rb # [])
        \<and> list_all other_source []
        \<and> dict_get ?rb ''EventSource'' PNone = PStr ''aws:sns''
        \<and> dict_get ?rb ''Sns'' (PDict []) = PDict ?big
        \<and> dict_get ?big ''Message'' PNone = PStr (replicate 4301 (CHR ''1''))
        \<and> json_loads example_services (replicate 4301 (CHR ''1'')) =
            Inl (Exc ValueError
                   (''Exceeds the limit (4300 digits) for integer string conversion: value has '' @
                    ''4301 digits; use sys.set_int_max_str_digits() to increase the limit''))
        \<and> ValueError \<noteq> JSONDecodeError"
    by (simp add: dict_has_def dict_get_def example_services_def example_json_loads_def
          list_all_iff show_nat.simps)
  from extract_summary_first_truthy [where d = ?d and sv = example_services] direct
  have "extract_summary example_services (PDict ?d) = Inr (direct_summary ?d)"
    by blast
  moreover
  from extract_summary_first_truthy [where d = ?e and before = ?before and r = ?r
        and after = "[]" and sns = ?sns and sv = example_services] wrapped
  have "extract_summary example_services (PDict ?e) = sns_summary example_services ?sns"
    by blast
  moreover
  from extract_summary_first_truthy [where d = ?eb and before = "[]" and r = ?rb
        and after = "[]" and sns = ?big and sv = example_services
        and s = "replicate 4301 (CHR ''1'')" and c = ValueError
        and m = "''Exceeds the limit (4300 digits) for integer string conversion: value has '' @
                 ''4301 digits; use sys.set_int_max_str_digits() to increase the limit''"] raising
  have "extract_summary example_services (PDict ?eb) =
      Inl (Exc ValueError
             (''Exceeds the limit (4300 digits) for integer string conversion: value has '' @
              ''4301 digits; use sys.set_int_max_str_digits() to increase the limit''))"
    by blast
  moreover have "direct_summary ?d =
      [(''task'', PStr ''nightly-sync''), (''status'', PStr ''updated''),
       (''details'', PStr ''3 tables''), (''subject'', PNone)]"
    by (simp add: direct_summary_def dict_get_def)
  moreover have \<open>sns_summary example_services ?sns =
      Inr [(''task'', PStr ''backup''), (''status'', PStr ''updated''),
           (''details'', PStr ''{"task": "backup", "status": ""}''),
           (''subject'', PStr ''Nightly'')]\<close>
    by (simp add: sns_summary_def decoded_message_def example_services_def
          example_json_loads_def dict_get_def Let_def)
  ultimately show ?thesis using direct by simp
qed

section \<open>The Pub/Sub decorator\<close>

text \<open>
  C1. The decorated handler returns what the wrapped handler returns, and raises what it
  raises, for all services: the failing ones included, so no exception of the publish
  reaches the caller. When the result is not a dict with \<open>statusCode == 200\<close> the
  state is the one the wrapped handler left: nothing is requested, logged or cached. When
  the decoding of the body or the publish raises, the exception is logged as a warning
  and the result is returned.
\<close>

theorem decorator_returns_handler_result:
  "fst (lambda_handler_with_pubsub cf sv original_handler event ctx w) =
     fst (original_handler event ctx w)
   \<and> (original_handler event ctx w = (Inr result, w1) \<and> \<not> publishable result
        \<longrightarrow> lambda_handler_with_pubsub cf sv original_handler event ctx w = (Inr result, w1))
   \<and> (original_handler event ctx w = (Inr result, w1) \<and> publishable result
        \<and> republish cf sv result w1 = (Inl exc, w2)
        \<longrightarrow> lambda_handler_with_pubsub cf sv original_handler event ctx w =
            (Inr result, log ''WARNING'' (''Failed to publish to Pub/Sub: '' @ exn_str exc) w2))"
proof -
  obtain outcome w' where handler: "original_handler event ctx w = (outcome, w')"
    by (cases "original_handler event ctx w")
  show ?thesis
  proof (cases outcome)
    case (Inl raised)
    with handler show ?thesis
      by (simp add: lambda_handler_with_pubsub_def wrapper_def)
  next
    case (Inr returned)
    show ?thesis
    proof (cases "publishable returned")
      case False
      with handler Inr show ?thesis
        by (simp add: lambda_handler_with_pubsub_def wrapper_def)
    next
      case True
      obtain published w'' where "republish cf sv returned w' = (published, w'')"
        by (cases "republish cf sv returned w'")
      with handler Inr True show ?thesis
        by (cases published) (auto simp: lambda_handler_with_pubsub_def wrapper_def)
    qed
  qed
qed

text \<open>
  A handler that answers 500, and one that answers 200 while the secret store does not
  hold the service account key.
\<close>

theorem decorator_returns_handler_result_witness:
  "lambda_handler_with_pubsub example_config example_services
     (\<lambda>event context w. (Inr (PDict [(''statusCode'', PInt 500), (''body'', PStr ''{}'')]), w))
     (PDict []) () fresh_process =
   (Inr (PDict [(''statusCode'', PInt 500), (''body'', PStr ''{}'')]), fresh_process)
   \<and> publishable (PDict [(''statusCode'', PInt 200), (''body'', PStr ''{}'')])
   \<and> lambda_handler_with_pubsub example_config example_services
     (\<lambda>event context w. (Inr (PDict [(''statusCode'', PInt 200), (''body'', PStr ''{}'')]), w))
     (PDict []) () fresh_process =
   (Inr (PDict [(''statusCode'', PInt 200), (''body'', PStr ''{}'')]),
    fresh_process\<lparr>calls := [GetSecretValue ''gcp/pubsub''],
      logs := [(''ERROR'', ''Failed to initialize GCP Pub/Sub client: ResourceNotFoundException''),
               (''ERROR'', ''Failed to publish to Pub/Sub: ResourceNotFoundException''),
               (''WARNING'', ''Failed to publish to Pub/Sub: ResourceNotFoundException'')]\<rparr>)"
proof -
  let ?r500 = "PDict [(''statusCode'', PInt 500), (''body'', PStr ''{}'')]"
  let ?r200 = "PDict [(''statusCode'', PInt 200), (''body'', PStr ''{}'')]"
  let ?h500 = "\<lambda>(event::pyval) (context::unit) (w::world). (Inr ?r500 :: exn + pyval, w)"
  let ?h200 = "\<lambda>(event::pyval) (context::unit) (w::world). (Inr ?r200 :: exn + pyval, w)"
  let ?w2 = "fresh_process\<lparr>calls := [GetSecretValue ''gcp/pubsub''],
      logs := [(''ERROR'', ''Failed to initialize GCP Pub/Sub client: ResourceNotFoundException''),
               (''ERROR'', ''Failed to publish to Pub/Sub: ResourceNotFoundException'')]\<rparr>"
  have no: "\<not> publishable ?r500" and yes: "publishable ?r200"
    by (simp_all add: dict_get_def)
  have fails: "republish example_config example_services ?r200 fresh_process =
      (Inl (Exc ServiceError ''ResourceNotFoundException''), ?w2)"
    by (simp add: republish_def publish_to_pubsub_def publish_to_pubsub_try_def
          get_publisher_client_def get_publisher_client_try_def fetch_secret_def log_def
          example_config_def example_services_def example_secrets_def example_json_loads_def
          fresh_process_def dict_get_def Let_def)
  from decorator_returns_handler_result [where original_handler = ?h500 and result = ?r500
        and ?w1.0 = fresh_process and w = fresh_process and cf = example_config
        and sv = example_services and event = "PDict []" and ctx = "()"] no
  have "lambda_handler_with_pubsub example_config example_services ?h500 (PDict []) ()
          fresh_process = (Inr ?r500, fresh_process)"
    by blast
  moreover
  from decorator_returns_handler_result [where original_handler = ?h200 and result = ?r200
        and ?w1.0 = fresh_process and w = fresh_process and cf = example_config
        and sv = example_services and event = "PDict []" and ctx = "()"
        and exc = "Exc ServiceError ''ResourceNotFoundException''" and ?w2.0 = ?w2] yes fails
  have "lambda_handler_with_pubsub example_config example_services ?h200 (PDict []) ()
          fresh_process =
        (Inr ?r200, log ''WARNING''
           (''Failed to publish to Pub/Sub: '' @ exn_str (Exc ServiceError ''ResourceNotFoundException''))
           ?w2)"
    by blast
  ultimately show ?thesis using yes by (simp add: log_def fresh_process_def)
qed

section \<open>The document-sync handler\<close>

lemma try_writes:
  assumes "dict_has event ''data''"
    and "decode_message sv (dict_get event ''data'' PNone) = Inr (PDict p)"
    and "dict_get event ''attributes'' (PDict []) = PDict a"
  shows "pubsub_to_firestore_try sv event w =
     (case respond sv (calls w) (record_write sv p a w) of
        Inl exc \<Rightarrow>
          (Inl exc, w\<lparr>ticks := Suc (Suc (ticks w)), calls := calls w @ [record_write sv p a w]\<rparr>)
      | Inr r \<Rightarrow>
          (case respond sv (calls w @ [record_write sv p a w]) (merge_write p) of
             Inl exc \<Rightarrow>
               (Inl exc,
                w\<lparr>ticks := Suc (Suc (ticks w)),
                  calls := calls w @ [record_write sv p a w, merge_write p],
                  logs := logs w @ [(''INFO'', ''Written to Firestore: '' @
                     py_str sv (dict_get p ''coordinator_id'' (PStr ''unknown'')) @ ''_'' @
                     py_str sv (PInt (timestamp_s (utcnow sv (Suc (ticks w))))))]\<rparr>)
           | Inr r2 \<Rightarrow>
               (Inr (),
                w\<lparr>ticks := Suc (Suc (ticks w)),
                  calls := calls w @ [record_write sv p a w, merge_write p],
                  logs := logs w @ [(''INFO'', ''Written to Firestore: '' @
                     py_str sv (dict_get p ''coordinator_id'' (PStr ''unknown'')) @ ''_'' @
                     py_str sv (PInt (timestamp_s (utcnow sv (Suc (ticks w))))))]\<rparr>)))"
  using assms
  by (simp add: pubsub_to_firestore_try_def record_write_def merge_write_def latest_status_def
        invoke_def now_def log_def Let_def split: sum.splits)

text \<open>
  C2, as stated: whenever the payload decodes, a record and a merge are written. Three
  events refute it. A payload that decodes to a list has no \<open>get\<close>, and nothing is
  written. When the document store refuses the record, the merge is never requested.
  Attributes that are present and None have no \<open>get\<close> either.
\<close>

theorem pubsub_to_firestore_counterexample:
  "decode_message example_services (PStr ''W10='') = Inr (PList [])
   \<and> calls (snd (pubsub_to_firestore example_services [(''data'', PStr ''W10='')] fresh_process)) = []
   \<and> decode_message firestore_down (dict_get success_event ''data'' PNone) =
      Inr (PDict success_payload)
   \<and> calls (snd (pubsub_to_firestore firestore_down success_event fresh_process)) =
      [record_write firestore_down success_payload [] fresh_process]
   \<and> calls (snd (pubsub_to_firestore example_services
                     (success_event @ [(''attributes'', PNone)]) fresh_process)) = []"
  by (simp add: pubsub_to_firestore_def pubsub_to_firestore_try_def decode_message_def
        example_services_def firestore_down_def example_b64decode_utf8_def example_json_loads_def
        success_event_def success_payload_def record_write_def
        fresh_process_def dict_has_def dict_get_def invoke_def now_def log_def Let_def)

text \<open>
  C2, amended. For an event whose data decodes to a dict and whose attributes are absent
  or a dict, the handler requests the write of one record to \<open>tasks\<close>, under the
  document id made of the coordinator id and the current time stamp; if that write
  succeeds it requests one more write, to the document of the coordinator in
  \<open>coordinators\<close>, with \<open>merge=True\<close> and exactly the fields \<open>last_status\<close>,
  \<open>last_update\<close> and \<open>total_tasks\<close>, the last being the increment by the
  \<open>tasks_processed\<close> of the payload, 0 when absent. It requests nothing else.
\<close>

theorem pubsub_to_firestore_writes:
  "dict_has event ''data''
   \<and> decode_message sv (dict_get event ''data'' PNone) = Inr (PDict p)
   \<and> dict_get event ''attributes'' (PDict []) = PDict a
   \<longrightarrow> calls (snd (pubsub_to_firestore sv event w)) =
         calls w @ (if succeeds sv (calls w) (record_write sv p a w)
                    then [record_write sv p a w, merge_write p]
                    else [record_write sv p a w])"
  by (auto simp: pubsub_to_firestore_def try_writes succeeds_def log_def split: sum.splits)

text \<open>The event of a successful run in the example deployment: both writes are requested.\<close>

theorem pubsub_to_firestore_writes_witness:
  "dict_has success_event ''data''
   \<and> decode_message example_services (dict_get success_event ''data'' PNone) =
       Inr (PDict success_payload)
   \<and> calls (snd (pubsub_to_firestore example_services success_event fresh_process)) =
   [FirestoreSet ''tasks'' (PStr ''daily-coordinator-001_1704067200'')
      [(''coordinator_id'', FsVal (PStr ''daily-coordinator-001'')),
       (''status'', FsVal (PStr ''success'')),
       (''tasks_processed'', FsVal (PInt 2)),
       (''errors'', FsVal (PList [])),
       (''timestamp'', FsVal (PStr ''2024-01-01T00:00:00'')),
       (''event_type'', FsVal (PStr ''update'')),
       (''source'', FsVal (PStr ''pubsub'')),
       (''created_at'', SERVER_TIMESTAMP),
       (''synced'', FsVal (PBool False))] False,
    FirestoreSet ''coordinators'' (PStr ''daily-coordinator-001'')
      [(''last_status'', FsVal (PStr ''success'')),
       (''last_update'', SERVER_TIMESTAMP),
       (''total_tasks'', Increment (PInt 2))] True]"
proof -
  have hyp: "dict_has success_event ''data''
      \<and> decode_message example_services (dict_get success_event ''data'' PNone) =
          Inr (PDict success_payload)
      \<and> dict_get success_event ''attributes'' (PDict []) = PDict []"
    by (simp add: dict_has_def dict_get_def decode_message_def example_services_def
          example_b64decode_utf8_def example_json_loads_def success_event_def
          success_payload_def)
  from pubsub_to_firestore_writes [where event = success_event and sv = example_services
        and p = success_payload and a = "[]" and w = fresh_process] hyp
  have "calls (snd (pubsub_to_firestore example_services success_event fresh_process)) =
        calls fresh_process @
          (if succeeds example_services (calls fresh_process)
                (record_write example_services success_payload [] fresh_process)
           then [record_write example_services success_payload [] fresh_process,
                 merge_write success_payload]
           else [record_write example_services success_payload [] fresh_process])"
    by blast
  then have "calls (snd (pubsub_to_firestore example_services success_event fresh_process)) =
   [FirestoreSet ''tasks'' (PStr ''daily-coordinator-001_1704067200'')
      [(''coordinator_id'', FsVal (PStr ''daily-coordinator-001'')),
       (''status'', FsVal (PStr ''success'')),
       (''tasks_processed'', FsVal (PInt 2)),
       (''errors'', FsVal (PList [])),
       (''timestamp'', FsVal (PStr ''2024-01-01T00:00:00'')),
       (''event_type'', FsVal (PStr ''update'')),
       (''source'', FsVal (PStr ''pubsub'')),
       (''created_at'', SERVER_TIMESTAMP),
       (''synced'', FsVal (PBool False))] False,
    FirestoreSet ''coordinators'' (PStr ''daily-coordinator-001'')
      [(''last_status'', FsVal (PStr ''success'')),
       (''last_update'', SERVER_TIMESTAMP),
       (''total_tasks'', Increment (PInt 2))] True]"
    by (simp add: succeeds_def record_write_def merge_write_def task_doc_def
          example_services_def example_respond_def fresh_process_def dict_get_def
          success_payload_def show_int_def show_nat.simps)
  with hyp show ?thesis by simp
qed

text \<open>
  C3. Whatever the body of the \<open>try\<close> raises, \<open>pubsub_to_firestore\<close> logs it as an error
  and raises it again. An exception of the decoding (base64, UTF-8 or JSON), of the write
  of the record or of the merge is what the handler raises; and the handler returns
  normally only when the event has no data or the decoding and both writes succeeded.
\<close>

theorem pubsub_to_firestore_reraises:
  "(pubsub_to_firestore_try sv event w = (Inl exc, w1)
      \<longrightarrow> pubsub_to_firestore sv event w =
          (Inl exc, log ''ERROR'' (''Error processing Pub/Sub message: '' @ exn_str exc) w1))
   \<and> (dict_has event ''data'' \<and> decode_message sv (dict_get event ''data'' PNone) = Inl exc
      \<longrightarrow> fst (pubsub_to_firestore sv event w) = Inl exc)
   \<and> (dict_has event ''data''
       \<and> decode_message sv (dict_get event ''data'' PNone) = Inr (PDict p)
       \<and> dict_get event ''attributes'' (PDict []) = PDict a
       \<and> respond sv (calls w) (record_write sv p a w) = Inl exc
      \<longrightarrow> fst (pubsub_to_firestore sv event w) = Inl exc)
   \<and> (dict_has event ''data''
       \<and> decode_message sv (dict_get event ''data'' PNone) = Inr (PDict p)
       \<and> dict_get event ''attributes'' (PDict []) = PDict a
       \<and> respond sv (calls w) (record_write sv p a w) = Inr r
       \<and> respond sv (calls w @ [record_write sv p a w]) (merge_write p) = Inl exc
      \<longrightarrow> fst (pubsub_to_firestore sv event w) = Inl exc)
   \<and> (fst (pubsub_to_firestore sv event w) = Inr ()
      \<longrightarrow> \<not> dict_has event ''data''
          \<or> (\<exists>p a r r2.
                decode_message sv (dict_get event ''data'' PNone) = Inr (PDict p)
                \<and> dict_get event ''attributes'' (PDict []) = PDict a
                \<and> respond sv (calls w) (record_write sv p a w) = Inr r
                \<and> respond sv (calls w @ [record_write sv p a w]) (merge_write p) = Inr r2))"
proof (intro conjI impI)
  assume "pubsub_to_firestore_try sv event w = (Inl exc, w1)"
  then show "pubsub_to_firestore sv event w =
      (Inl exc, log ''ERROR'' (''Error processing Pub/Sub message: '' @ exn_str exc) w1)"
    by (simp add: pubsub_to_firestore_def)
next
  assume "dict_has event ''data'' \<and> decode_message sv (dict_get event ''data'' PNone) = Inl exc"
  then show "fst (pubsub_to_firestore sv event w) = Inl exc"
    by (simp add: pubsub_to_firestore_def pubsub_to_firestore_try_def)
next
  assume "dict_has event ''data''
       \<and> decode_message sv (dict_get event ''data'' PNone) = Inr (PDict p)
       \<and> dict_get event ''attributes'' (PDict []) = PDict a
       \<and> respond sv (calls w) (record_write sv p a w) = Inl exc"
  then show "fst (pubsub_to_firestore sv event w) = Inl exc"
    by (simp add: pubsub_to_firestore_def try_writes)
next
  assume "dict_has event ''data''
       \<and> decode_message sv (dict_get event ''data'' PNone) = Inr (PDict p)
       \<and> dict_get event ''attributes'' (PDict []) = PDict a
       \<and> respond sv (calls w) (record_write sv p a w) = Inr r
       \<and> respond sv (calls w @ [record_write sv p a w]) (merge_write p) = Inl exc"
  then show "fst (pubsub_to_firestore sv event w) = Inl exc"
    by (simp add: pubsub_to_firestore_def try_writes)
next
  assume ok: "fst (pubsub_to_firestore sv event w) = Inr ()"
  show "\<not> dict_has event ''data''
          \<or> (\<exists>p a r r2.
                decode_message sv (dict_get event ''data'' PNone) = Inr (PDict p)
                \<and> dict_get event ''attributes'' (PDict []) = PDict a
                \<and> respond sv (calls w) (record_write sv p a w) = Inr r
                \<and> respond sv (calls w @ [record_write sv p a w]) (merge_write p) = Inr r2)"
  proof (cases "dict_has event ''data''")
    case False
    then show ?thesis by simp
  next
    case True
    from ok have try_ok: "fst (pubsub_to_firestore_try sv event w) = Inr ()"
      by (auto simp: pubsub_to_firestore_def split: prod.splits sum.splits)
    from True try_ok obtain p where p: "decode_message sv (dict_get event ''data'' PNone) = Inr (PDict p)"
      by (auto simp: pubsub_to_firestore_try_def split: sum.splits pyval.splits)
    from True try_ok p obtain a where a: "dict_get event ''attributes'' (PDict []) = PDict a"
      by (auto simp: pubsub_to_firestore_try_def now_def Let_def split: pyval.splits prod.splits)
    from try_ok obtain r r2 where "respond sv (calls w) (record_write sv p a w) = Inr r"
      and "respond sv (calls w @ [record_write sv p a w]) (merge_write p) = Inr r2"
      by (auto simp: try_writes [OF True p a] split: sum.splits)
    with p a show ?thesis by blast
  qed
qed

text \<open>
  In the example deployment: data that lacks its base64 padding, the document store out of
  reach, the merge refused, and a run in which everything succeeds.
\<close>

theorem pubsub_to_firestore_reraises_witness:
  "pubsub_to_firestore example_services [(''data'', PStr ''AA'')] fresh_process =
     (Inl (Exc ValueError ''Incorrect padding''),
      fresh_process\<lparr>logs := [(''ERROR'', ''Error processing Pub/Sub message: Incorrect padding'')]\<rparr>)
   \<and> fst (pubsub_to_firestore firestore_down success_event fresh_process) =
       Inl (Exc ServiceError ''DeadlineExceeded'')
   \<and> fst (pubsub_to_firestore merge_refused success_event fresh_process) =
       Inl (Exc ServiceError ''PermissionDenied'')
   \<and> fst (pubsub_to_firestore example_services success_event fresh_process) = Inr ()
   \<and> dict_has success_event ''data''
   \<and> (\<exists>p a r r2.
          decode_message example_services (dict_get success_event ''data'' PNone) = Inr (PDict p)
          \<and> dict_get success_event ''attributes'' (PDict []) = PDict a
          \<and> respond example_services (calls fresh_process)
                (record_write example_services p a fresh_process) = Inr r
          \<and> respond example_services
                (calls fresh_process @ [record_write example_services p a fresh_process])
                (merge_write p) = Inr r2)"
proof -
  let ?bad = "[(''data'', PStr ''AA'')]"
  have bad: "dict_has ?bad ''data''
      \<and> decode_message example_services (dict_get ?bad ''data'' PNone) =
          Inl (Exc ValueError ''Incorrect padding'')"
    and bad_try: "pubsub_to_firestore_try example_services ?bad fresh_process =
          (Inl (Exc ValueError ''Incorrect padding''), fresh_process)"
    by (simp_all add: pubsub_to_firestore_try_def dict_has_def dict_get_def decode_message_def
          example_services_def example_b64decode_utf8_def)
  have good: "dict_has success_event ''data''"
      "dict_get success_event ''attributes'' (PDict []) = PDict []"
      "decode_message example_services (dict_get success_event ''data'' PNone) =
         Inr (PDict success_payload)"
      "decode_message firestore_down (dict_get success_event ''data'' PNone) =
         Inr (PDict success_payload)"
      "decode_message merge_refused (dict_get success_event ''data'' PNone) =
         Inr (PDict success_payload)"
    by (simp_all add: dict_has_def dict_get_def decode_message_def example_services_def
          firestore_down_def merge_refused_def example_b64decode_utf8_def
          example_json_loads_def success_event_def success_payload_def)
  have down: "respond firestore_down (calls fresh_process)
        (record_write firestore_down success_payload [] fresh_process) =
      Inl (Exc ServiceError ''DeadlineExceeded'')"
    by (simp add: firestore_down_def)
  have refused: "respond merge_refused (calls fresh_process)
        (record_write merge_refused success_payload [] fresh_process) = Inr PNone"
      "respond merge_refused
        (calls fresh_process @ [record_write merge_refused success_payload [] fresh_process])
        (merge_write success_payload) = Inl (Exc ServiceError ''PermissionDenied'')"
    by (simp_all add: merge_refused_def record_write_def merge_write_def)
  have accepted: "respond example_services (calls fresh_process)
        (record_write example_services success_payload [] fresh_process) = Inr PNone"
      "respond example_services
        (calls fresh_process @ [record_write example_services success_payload [] fresh_process])
        (merge_write success_payload) = Inr PNone"
    by (simp_all add: example_services_def example_respond_def record_write_def merge_write_def)
  have ok: "fst (pubsub_to_firestore example_services success_event fresh_process) = Inr ()"
    by (simp add: pubsub_to_firestore_def try_writes [OF good(1) good(3) good(2)] accepted)
  from pubsub_to_firestore_reraises [where sv = example_services and event = ?bad
        and w = fresh_process and exc = "Exc ValueError ''Incorrect padding''"
        and ?w1.0 = fresh_process] bad_try
  have "pubsub_to_firestore example_services ?bad fresh_process =
      (Inl (Exc ValueError ''Incorrect padding''),
       log ''ERROR'' (''Error processing Pub/Sub message: '' @
                      exn_str (Exc ValueError ''Incorrect padding'')) fresh_process)"
    by blast
  moreover
  from pubsub_to_firestore_reraises [where sv = firestore_down and event = success_event
        and w = fresh_process and exc = "Exc ServiceError ''DeadlineExceeded''"
        and p = success_payload and a = "[]"] good down
  have "fst (pubsub_to_firestore firestore_down success_event fresh_process) =
      Inl (Exc ServiceError ''DeadlineExceeded'')"
    by blast
  moreover
  from pubsub_to_firestore_reraises [where sv = merge_refused and event = success_event
        and w = fresh_process and exc = "Exc ServiceError ''PermissionDenied''"
        and p = success_payload and a = "[]" and r = PNone] good refused
  have "fst (pubsub_to_firestore merge_refused success_event fresh_process) =
      Inl (Exc ServiceError ''PermissionDenied'')"
    by blast
  moreover
  from pubsub_to_firestore_reraises [where sv = example_services and event = success_event
        and w = fresh_process] ok good(1)
  have "\<exists>p a r r2.
          decode_message example_services (dict_get success_event ''data'' PNone) = Inr (PDict p)
          \<and> dict_get success_event ''attributes'' (PDict []) = PDict a
          \<and> respond example_services (calls fresh_process)
                (record_write example_services p a fresh_process) = Inr r
          \<and> respond example_services
                (calls fresh_process @ [record_write example_services p a fresh_process])
                (merge_write p) = Inr r2"
    by blast
  ultimately show ?thesis using ok good(1)
    by (simp add: log_def fresh_process_def)
qed

section \<open>The WhatsApp handler\<close>

lemma send_all_entries:
  "fst (send_all cf sv event_data rs results w) = results @ send_entries cf sv event_data rs w"
proof (induction rs arbitrary: results w)
  case Nil
  show ?case by (simp add: send_entries_def)
next
  case (Cons r rs)
  obtain outcome w1 where
    send: "send_whatsapp_alert cf sv event_data (whatsapp_format r) w = (outcome, w1)"
    by (cases "send_whatsapp_alert cf sv event_data (whatsapp_format r) w")
  have "fst (send_all cf sv event_data (r # rs) results w) =
        (results @ [result_entry (whatsapp_format r) outcome]) @ send_entries cf sv event_data rs w1"
    using send Cons.IH by simp
  also have "\<dots> = results @ send_entries cf sv event_data (r # rs) w"
    using send by (simp add: send_entries_def)
  finally show ?case .
qed

lemma length_send_states: "length (send_states cf sv event_data rs w) = length rs"
  by (induction rs arbitrary: w) simp_all

lemma length_send_entries: "length (send_entries cf sv event_data rs w) = length rs"
  by (simp add: send_entries_def length_send_states)

lemma nth_send_entries:
  "i < length rs \<Longrightarrow>
   send_entries cf sv event_data rs w ! i =
     result_entry (whatsapp_format (rs ! i))
       (fst (send_whatsapp_alert cf sv event_data (whatsapp_format (rs ! i))
               (send_states cf sv event_data rs w ! i)))"
  by (simp add: send_entries_def length_send_states)

lemma whatsapp_handler_sends:
  assumes "whatsapp_event_data sv event = Inr event_data" and "truthy event_data"
    and "WHATSAPP_TO cf = Some to" and "to \<noteq> []"
  shows "whatsapp_lambda_handler cf sv event w =
     (Inr (api_response sv 200
             (PDict [(''message'', PStr ''WhatsApp alerts processed''),
                     (''results'',
                      PList (send_entries cf sv event_data
                               (map (str_strip sv) (split_on CHR '','' to))
                               (log ''INFO'' (''Received event: '' @ json_dumps sv (PDict event)) w)))])),
      snd (send_all cf sv event_data (map (str_strip sv) (split_on CHR '','' to)) []
             (log ''INFO'' (''Received event: '' @ json_dumps sv (PDict event)) w)))"
proof -
  let ?rs = "map (str_strip sv) (split_on CHR '','' to)"
  let ?w0 = "log ''INFO'' (''Received event: '' @ json_dumps sv (PDict event)) w"
  obtain results w1 where run: "send_all cf sv event_data ?rs [] ?w0 = (results, w1)"
    by (cases "send_all cf sv event_data ?rs [] ?w0")
  then have "results = send_entries cf sv event_data ?rs ?w0"
    using send_all_entries [of cf sv event_data ?rs "[]" ?w0] by simp
  with assms run show ?thesis
    by (simp add: whatsapp_lambda_handler_def Let_def)
qed

lemma whatsapp_format_eq:
  "whatsapp_format r = (if take 9 r = ''whatsapp:'' then r else ''whatsapp:'' @ r)"
  by (simp add: whatsapp_format_def startswith_def eval_nat_numeral)

lemma split_on_nonempty: "split_on sep s \<noteq> []"
  by (induction s) (simp_all split: list.splits)

lemma split_on_concat: "concat (map (\<lambda>item. sep # item) (split_on sep s)) = sep # s"
  by (induction s) (auto split: list.splits simp: split_on_nonempty)

lemma split_on_items: "sep \<notin> set (concat (split_on sep s))"
  by (induction s) (auto split: list.splits)

lemma send_without_client:
  "get_twilio_client cf sv ws = (Inl exc, wc) \<Longrightarrow>
   send_whatsapp_alert cf sv event_data r ws =
     (Inl exc, log ''ERROR'' (''Failed to send WhatsApp to '' @ r @ '': '' @ exn_str exc) wc)"
  by (simp add: send_whatsapp_alert_def send_whatsapp_alert_try_def)

lemma send_without_message:
  "get_twilio_client cf sv ws = (Inr (Client a t), wc) \<Longrightarrow>
   format_whatsapp_message sv event_data = Inl exc \<Longrightarrow>
   send_whatsapp_alert cf sv event_data r ws =
     (Inl exc, log ''ERROR'' (''Failed to send WhatsApp to '' @ r @ '': '' @ exn_str exc) wc)"
  by (simp add: send_whatsapp_alert_def send_whatsapp_alert_try_def)

lemma send_request:
  "get_twilio_client cf sv ws = (Inr (Client a t), wc) \<Longrightarrow>
   format_whatsapp_message sv event_data = Inr body \<Longrightarrow>
   send_whatsapp_alert cf sv event_data r ws =
     (case respond sv (calls wc) (MessagesCreate a t (WHATSAPP_FROM cf) r body) of
        Inr sid \<Rightarrow>
          (Inr sid,
           log ''INFO'' (''WhatsApp sent to '' @ r @ '', SID: '' @ py_str sv sid)
             (wc\<lparr>calls := calls wc @ [MessagesCreate a t (WHATSAPP_FROM cf) r body]\<rparr>))
      | Inl exc \<Rightarrow>
          (Inl exc,
           log ''ERROR'' (''Failed to send WhatsApp to '' @ r @ '': '' @ exn_str exc)
             (wc\<lparr>calls := calls wc @ [MessagesCreate a t (WHATSAPP_FROM cf) r body]\<rparr>)))"
  by (simp add: send_whatsapp_alert_def send_whatsapp_alert_try_def invoke_def
      split: sum.splits)

lemma send_step:
  assumes "get_twilio_client cf sv ws = (Inr (Client a t), wc)"
    and "format_whatsapp_message sv event_data = Inr body"
  shows "fst (send_whatsapp_alert cf sv event_data r ws) =
           respond sv (calls wc) (MessagesCreate a t (WHATSAPP_FROM cf) r body)"
    and "calls (snd (send_whatsapp_alert cf sv event_data r ws)) =
           calls wc @ [MessagesCreate a t (WHATSAPP_FROM cf) r body]"
    and "get_twilio_client cf sv (snd (send_whatsapp_alert cf sv event_data r ws)) =
           (Inr (Client a t), snd (send_whatsapp_alert cf sv event_data r ws))"
proof -
  have client: "twilio_client wc = Some (Client a t)"
    using assms(1) by (rule get_twilio_client_Inr)
  show "fst (send_whatsapp_alert cf sv event_data r ws) =
           respond sv (calls wc) (MessagesCreate a t (WHATSAPP_FROM cf) r body)"
    by (simp add: send_request [OF assms] split: sum.splits)
  show "calls (snd (send_whatsapp_alert cf sv event_data r ws)) =
           calls wc @ [MessagesCreate a t (WHATSAPP_FROM cf) r body]"
    by (simp add: send_request [OF assms] log_def split: sum.splits)
  have "twilio_client (snd (send_whatsapp_alert cf sv event_data r ws)) = Some (Client a t)"
    using client by (simp add: send_request [OF assms] log_def split: sum.splits)
  then show "get_twilio_client cf sv (snd (send_whatsapp_alert cf sv event_data r ws)) =
           (Inr (Client a t), snd (send_whatsapp_alert cf sv event_data r ws))"
    by (simp add: get_twilio_client_def)
qed

lemma send_states_first:
  "(send_states cf sv event_data rs w @ [snd (send_all cf sv event_data rs acc w)]) ! 0 = w"
  by (cases rs) simp_all

lemma send_states_next:
  "i < length rs \<Longrightarrow>
   (send_states cf sv event_data rs w @ [snd (send_all cf sv event_data rs acc w)]) ! Suc i =
     snd (send_whatsapp_alert cf sv event_data (whatsapp_format (rs ! i))
            (send_states cf sv event_data rs w ! i))"
proof (induction rs arbitrary: w acc i)
  case Nil
  then show ?case by simp
next
  case (Cons r rs)
  obtain outcome w1 where
    send: "send_whatsapp_alert cf sv event_data (whatsapp_format r) w = (outcome, w1)"
    by (cases "send_whatsapp_alert cf sv event_data (whatsapp_format r) w")
  show ?case
  proof (cases i)
    case 0
    then show ?thesis
      using send send_states_first [of cf sv event_data rs w1
              "acc @ [result_entry (whatsapp_format r) outcome]"]
      by simp
  next
    case (Suc j)
    with Cons.prems have "j < length rs" by simp
    from Cons.IH [OF this, of w1 "acc @ [result_entry (whatsapp_format r) outcome]"] send Suc
    show ?thesis by simp
  qed
qed

lemma send_all_trace:
  assumes "format_whatsapp_message sv event_data = Inr body"
  shows "get_twilio_client cf sv w = (Inr (Client a t), wc) \<Longrightarrow> rs \<noteq> [] \<Longrightarrow>
     calls (snd (send_all cf sv event_data rs acc w)) =
       calls wc @ map (\<lambda>r. MessagesCreate a t (WHATSAPP_FROM cf) (whatsapp_format r) body) rs"
proof (induction rs arbitrary: acc w wc)
  case Nil
  then show ?case by simp
next
  case (Cons r rs)
  let ?w1 = "snd (send_whatsapp_alert cf sv event_data (whatsapp_format r) w)"
  let ?acc = "acc @ [result_entry (whatsapp_format r)
                      (fst (send_whatsapp_alert cf sv event_data (whatsapp_format r) w))]"
  have unfold: "send_all cf sv event_data (r # rs) acc w = send_all cf sv event_data rs ?acc ?w1"
    by (simp add: case_prod_beta)
  note step = send_step [OF Cons.prems(1) assms, of "whatsapp_format r"]
  show ?case
  proof (cases "rs = []")
    case True
    show ?thesis unfolding unfold using True step(2) by simp
  next
    case False
    from Cons.IH [OF step(3) False, of ?acc] step(2) show ?thesis
      by (simp add: unfold del: send_all.simps(2))
  qed
qed

lemma send_states_trace:
  assumes "format_whatsapp_message sv event_data = Inr body"
  shows "get_twilio_client cf sv w = (Inr (Client a t), wc) \<Longrightarrow> i < length rs \<Longrightarrow>
     fst (send_whatsapp_alert cf sv event_data (whatsapp_format (rs ! i))
            (send_states cf sv event_data rs w ! i)) =
       respond sv
         (calls wc @
          take i (map (\<lambda>r. MessagesCreate a t (WHATSAPP_FROM cf) (whatsapp_format r) body) rs))
         (MessagesCreate a t (WHATSAPP_FROM cf) (whatsapp_format (rs ! i)) body)"
proof (induction rs arbitrary: w wc i)
  case Nil
  then show ?case by simp
next
  case (Cons r rs)
  note step = send_step [OF Cons.prems(1) assms, of "whatsapp_format r"]
  show ?case
  proof (cases i)
    case 0
    then show ?thesis using step(1) by simp
  next
    case (Suc j)
    with Cons.prems have "j < length rs" by simp
    from Cons.IH [OF step(3) this] step(2) Suc show ?thesis by simp
  qed
qed

text \<open>
  C6. With event data present and \<open>WHATSAPP_TO\<close> set, the recipients are the items of
  the comma-separated list, each stripped and prefixed with \<open>whatsapp:\<close> unless it has
  the prefix; the items are the parts of the text between its commas (first part). The
  handler returns the response 200 whose body serialises the list of results, one for
  each recipient, in order. The sends are made one after another, the first in the state
  in which the event was logged and each next in the state the one before left, and the
  handler leaves the state of the last. The result of a recipient is the dict of the
  recipient, the message id and \<open>sent\<close> when its send returns, and the dict of the
  recipient, the text of the exception and \<open>failed\<close> when it raises; the next send is
  made in both cases (second part). A send raises what \<open>_get_twilio_client\<close> or
  \<open>_format_whatsapp_message\<close> raises, without a request; otherwise it makes the one
  request \<open>messages.create\<close> from the configured sender to the recipient with the
  formatted text, and returns the message id of the request or raises its exception; it
  logs either (third to fifth part). So when the client is obtained and the text can be
  formatted, the requests of the handler are one \<open>messages.create\<close> for each
  recipient, in order, and each result records what the messaging API answered to the
  request for its recipient (last part).
\<close>

theorem whatsapp_sends_to_every_recipient:
  "(concat (map (\<lambda>item. CHR '','' # item) (split_on CHR '','' to)) = CHR '','' # to
    \<and> CHR '','' \<notin> set (concat (split_on CHR '','' to)))
   \<and> (whatsapp_event_data sv event = Inr event_data \<and> truthy event_data
       \<and> WHATSAPP_TO cf = Some to \<and> to \<noteq> []
       \<and> rs = map (\<lambda>item. if take 9 (str_strip sv item) = ''whatsapp:'' then str_strip sv item
                            else ''whatsapp:'' @ str_strip sv item)
                   (split_on CHR '','' to)
       \<and> w0 = log ''INFO'' (''Received event: '' @ json_dumps sv (PDict event)) w
      \<longrightarrow> (\<exists>results states.
             whatsapp_lambda_handler cf sv event w =
               (Inr (PDict [(''statusCode'', PInt 200),
                            (''body'', PStr (json_dumps sv
                               (PDict [(''message'', PStr ''WhatsApp alerts processed''),
                                       (''results'', PList results)])))]),
                last states)
             \<and> length results = length (split_on CHR '','' to)
             \<and> length states = Suc (length (split_on CHR '','' to))
             \<and> states ! 0 = w0
             \<and> (\<forall>i<length rs.
                   results ! i =
                     (case fst (send_whatsapp_alert cf sv event_data (rs ! i) (states ! i)) of
                        Inr sid \<Rightarrow>
                          PDict [(''recipient'', PStr (rs ! i)), (''sid'', sid),
                                 (''status'', PStr ''sent'')]
                      | Inl exc \<Rightarrow>
                          PDict [(''recipient'', PStr (rs ! i)), (''error'', PStr (exn_str exc)),
                                 (''status'', PStr ''failed'')])
                   \<and> states ! Suc i =
                       snd (send_whatsapp_alert cf sv event_data (rs ! i) (states ! i)))))
   \<and> (get_twilio_client cf sv ws = (Inl exc, wc)
      \<longrightarrow> send_whatsapp_alert cf sv event_data recipient ws =
            (Inl exc,
             log ''ERROR'' (''Failed to send WhatsApp to '' @ recipient @ '': '' @ exn_str exc) wc))
   \<and> (get_twilio_client cf sv ws = (Inr (Client account_sid auth_token), wc)
       \<and> format_whatsapp_message sv event_data = Inl exc
      \<longrightarrow> send_whatsapp_alert cf sv event_data recipient ws =
            (Inl exc,
             log ''ERROR'' (''Failed to send WhatsApp to '' @ recipient @ '': '' @ exn_str exc) wc))
   \<and> (get_twilio_client cf sv ws = (Inr (Client account_sid auth_token), wc)
       \<and> format_whatsapp_message sv event_data = Inr body
       \<and> request = MessagesCreate account_sid auth_token (WHATSAPP_FROM cf) recipient body
      \<longrightarrow> send_whatsapp_alert cf sv event_data recipient ws =
            (case respond sv (calls wc) request of
               Inr sid \<Rightarrow>
                 (Inr sid,
                  log ''INFO'' (''WhatsApp sent to '' @ recipient @ '', SID: '' @ py_str sv sid)
                    (wc\<lparr>calls := calls wc @ [request]\<rparr>))
             | Inl exc \<Rightarrow>
                 (Inl exc,
                  log ''ERROR''
                    (''Failed to send WhatsApp to '' @ recipient @ '': '' @ exn_str exc)
                    (wc\<lparr>calls := calls wc @ [request]\<rparr>))))
   \<and> (whatsapp_event_data sv event = Inr event_data \<and> truthy event_data
       \<and> WHATSAPP_TO cf = Some to \<and> to \<noteq> []
       \<and> rs = map (\<lambda>item. if take 9 (str_strip sv item) = ''whatsapp:'' then str_strip sv item
                            else ''whatsapp:'' @ str_strip sv item)
                   (split_on CHR '','' to)
       \<and> w0 = log ''INFO'' (''Received event: '' @ json_dumps sv (PDict event)) w
       \<and> get_twilio_client cf sv w0 = (Inr (Client account_sid auth_token), wc)
       \<and> format_whatsapp_message sv event_data = Inr body
       \<and> sends = map (\<lambda>r. MessagesCreate account_sid auth_token (WHATSAPP_FROM cf) r body) rs
      \<longrightarrow> (\<exists>results w1.
             whatsapp_lambda_handler cf sv event w =
               (Inr (PDict [(''statusCode'', PInt 200),
                            (''body'', PStr (json_dumps sv
                               (PDict [(''message'', PStr ''WhatsApp alerts processed''),
                                       (''results'', PList results)])))]),
                w1)
             \<and> calls w1 = calls wc @ sends
             \<and> length results = length rs
             \<and> (\<forall>i<length rs.
                   results ! i =
                     (case respond sv (calls wc @ take i sends) (sends ! i) of
                        Inr sid \<Rightarrow>
                          PDict [(''recipient'', PStr (rs ! i)), (''sid'', sid),
                                 (''status'', PStr ''sent'')]
                      | Inl exc \<Rightarrow>
                          PDict [(''recipient'', PStr (rs ! i)), (''error'', PStr (exn_str exc)),
                                 (''status'', PStr ''failed'')]))))"
proof (intro conjI impI)
  show "concat (map (\<lambda>item. CHR '','' # item) (split_on CHR '','' to)) = CHR '','' # to"
    by (rule split_on_concat)
  show "CHR '','' \<notin> set (concat (split_on CHR '','' to))"
    by (rule split_on_items)
next
  assume a: "whatsapp_event_data sv event = Inr event_data \<and> truthy event_data
       \<and> WHATSAPP_TO cf = Some to \<and> to \<noteq> []
       \<and> rs = map (\<lambda>item. if take 9 (str_strip sv item) = ''whatsapp:'' then str_strip sv item
                            else ''whatsapp:'' @ str_strip sv item)
                   (split_on CHR '','' to)
       \<and> w0 = log ''INFO'' (''Received event: '' @ json_dumps sv (PDict event)) w"
  define items where "items = map (str_strip sv) (split_on CHR '','' to)"
  define results where "results = send_entries cf sv event_data items w0"
  define states where
    "states = send_states cf sv event_data items w0 @ [snd (send_all cf sv event_data items [] w0)]"
  have rs: "rs = map whatsapp_format items"
    using a by (simp add: items_def whatsapp_format_eq)
  have len: "length items = length (split_on CHR '','' to)" "length rs = length items"
    by (simp_all add: items_def rs)
  have "whatsapp_lambda_handler cf sv event w =
               (Inr (PDict [(''statusCode'', PInt 200),
                            (''body'', PStr (json_dumps sv
                               (PDict [(''message'', PStr ''WhatsApp alerts processed''),
                                       (''results'', PList results)])))]),
                last states)"
    using a by (simp add: whatsapp_handler_sends api_response_def results_def states_def items_def)
  moreover have "length results = length (split_on CHR '','' to)"
    by (simp add: results_def length_send_entries len)
  moreover have "length states = Suc (length (split_on CHR '','' to))"
    by (simp add: states_def length_send_states len)
  moreover have "states ! 0 = w0"
    unfolding states_def by (rule send_states_first)
  moreover have "\<forall>i<length rs.
                   results ! i =
                     (case fst (send_whatsapp_alert cf sv event_data (rs ! i) (states ! i)) of
                        Inr sid \<Rightarrow>
                          PDict [(''recipient'', PStr (rs ! i)), (''sid'', sid),
                                 (''status'', PStr ''sent'')]
                      | Inl exc \<Rightarrow>
                          PDict [(''recipient'', PStr (rs ! i)), (''error'', PStr (exn_str exc)),
                                 (''status'', PStr ''failed'')])
                   \<and> states ! Suc i =
                       snd (send_whatsapp_alert cf sv event_data (rs ! i) (states ! i))"
  proof (intro allI impI)
    fix i
    assume "i < length rs"
    then have i: "i < length items"
      by (simp add: len)
    then have state: "states ! i = send_states cf sv event_data items w0 ! i"
      by (simp add: states_def nth_append length_send_states)
    have r: "rs ! i = whatsapp_format (items ! i)"
      using i by (simp add: rs)
    have "results ! i =
            result_entry (rs ! i) (fst (send_whatsapp_alert cf sv event_data (rs ! i) (states ! i)))"
      using i by (simp add: results_def nth_send_entries state r)
    moreover have "states ! Suc i =
            snd (send_whatsapp_alert cf sv event_data (rs ! i) (states ! i))"
      using i unfolding states_def state [unfolded states_def] r by (rule send_states_next)
    ultimately show "results ! i =
                     (case fst (send_whatsapp_alert cf sv event_data (rs ! i) (states ! i)) of
                        Inr sid \<Rightarrow>
                          PDict [(''recipient'', PStr (rs ! i)), (''sid'', sid),
                                 (''status'', PStr ''sent'')]
                      | Inl exc \<Rightarrow>
                          PDict [(''recipient'', PStr (rs ! i)), (''error'', PStr (exn_str exc)),
                                 (''status'', PStr ''failed'')])
                   \<and> states ! Suc i =
                       snd (send_whatsapp_alert cf sv event_data (rs ! i) (states ! i))"
      by (simp add: result_entry_def)
  qed
  ultimately show "\<exists>results states.
             whatsapp_lambda_handler cf sv event w =
               (Inr (PDict [(''statusCode'', PInt 200),
                            (''body'', PStr (json_dumps sv
                               (PDict [(''message'', PStr ''WhatsApp alerts processed''),
                                       (''results'', PList results)])))]),
                last states)
             \<and> length results = length (split_on CHR '','' to)
             \<and> length states = Suc (length (split_on CHR '','' to))
             \<and> states ! 0 = w0
             \<and> (\<forall>i<length rs.
                   results ! i =
                     (case fst (send_whatsapp_alert cf sv event_data (rs ! i) (states ! i)) of
                        Inr sid \<Rightarrow>
                          PDict [(''recipient'', PStr (rs ! i)), (''sid'', sid),
                                 (''status'', PStr ''sent'')]
                      | Inl exc \<Rightarrow>
                          PDict [(''recipient'', PStr (rs ! i)), (''error'', PStr (exn_str exc)),
                                 (''status'', PStr ''failed'')])
                   \<and> states ! Suc i =
                       snd (send_whatsapp_alert cf sv event_data (rs ! i) (states ! i)))"
    by blast
next
  assume "get_twilio_client cf sv ws = (Inl exc, wc)"
  then show "send_whatsapp_alert cf sv event_data recipient ws =
            (Inl exc,
             log ''ERROR'' (''Failed to send WhatsApp to '' @ recipient @ '': '' @ exn_str exc) wc)"
    by (rule send_without_client)
next
  assume "get_twilio_client cf sv ws = (Inr (Client account_sid auth_token), wc)
       \<and> format_whatsapp_message sv event_data = Inl exc"
  then show "send_whatsapp_alert cf sv event_data recipient ws =
            (Inl exc,
             log ''ERROR'' (''Failed to send WhatsApp to '' @ recipient @ '': '' @ exn_str exc) wc)"
    by (simp add: send_without_message)
next
  assume "get_twilio_client cf sv ws = (Inr (Client account_sid auth_token), wc)
       \<and> format_whatsapp_message sv event_data = Inr body
       \<and> request = MessagesCreate account_sid auth_token (WHATSAPP_FROM cf) recipient body"
  then show "send_whatsapp_alert cf sv event_data recipient ws =
            (case respond sv (calls wc) request of
               Inr sid \<Rightarrow>
                 (Inr sid,
                  log ''INFO'' (''WhatsApp sent to '' @ recipient @ '', SID: '' @ py_str sv sid)
                    (wc\<lparr>calls := calls wc @ [request]\<rparr>))
             | Inl exc \<Rightarrow>
                 (Inl exc,
                  log ''ERROR''
                    (''Failed to send WhatsApp to '' @ recipient @ '': '' @ exn_str exc)
                    (wc\<lparr>calls := calls wc @ [request]\<rparr>)))"
    by (clarsimp simp: send_request)
next
  assume a: "whatsapp_event_data sv event = Inr event_data \<and> truthy event_data
       \<and> WHATSAPP_TO cf = Some to \<and> to \<noteq> []
       \<and> rs = map (\<lambda>item. if take 9 (str_strip sv item) = ''whatsapp:'' then str_strip sv item
                            else ''whatsapp:'' @ str_strip sv item)
                   (split_on CHR '','' to)
       \<and> w0 = log ''INFO'' (''Received event: '' @ json_dumps sv (PDict event)) w
       \<and> get_twilio_client cf sv w0 = (Inr (Client account_sid auth_token), wc)
       \<and> format_whatsapp_message sv event_data = Inr body
       \<and> sends = map (\<lambda>r. MessagesCreate account_sid auth_token (WHATSAPP_FROM cf) r body) rs"
  define items where "items = map (str_strip sv) (split_on CHR '','' to)"
  define results where "results = send_entries cf sv event_data items w0"
  define w1 where "w1 = snd (send_all cf sv event_data items [] w0)"
  have client: "get_twilio_client cf sv w0 = (Inr (Client account_sid auth_token), wc)"
    and formatted: "format_whatsapp_message sv event_data = Inr body"
    using a by blast+
  have rs: "rs = map whatsapp_format items"
    using a by (simp add: items_def whatsapp_format_eq)
  have sends: "sends = map (\<lambda>r. MessagesCreate account_sid auth_token (WHATSAPP_FROM cf)
                                   (whatsapp_format r) body) items"
    using a by (simp add: rs)
  have nonempty: "items \<noteq> []"
    by (simp add: items_def split_on_nonempty)
  have "whatsapp_lambda_handler cf sv event w =
               (Inr (PDict [(''statusCode'', PInt 200),
                            (''body'', PStr (json_dumps sv
                               (PDict [(''message'', PStr ''WhatsApp alerts processed''),
                                       (''results'', PList results)])))]),
                w1)"
    using a by (simp add: whatsapp_handler_sends api_response_def results_def w1_def items_def)
  moreover have "calls w1 = calls wc @ sends"
    unfolding w1_def sends by (rule send_all_trace [OF formatted client nonempty])
  moreover have "length results = length rs"
    by (simp add: results_def length_send_entries rs)
  moreover have "\<forall>i<length rs.
                   results ! i =
                     (case respond sv (calls wc @ take i sends) (sends ! i) of
                        Inr sid \<Rightarrow>
                          PDict [(''recipient'', PStr (rs ! i)), (''sid'', sid),
                                 (''status'', PStr ''sent'')]
                      | Inl exc \<Rightarrow>
                          PDict [(''recipient'', PStr (rs ! i)), (''error'', PStr (exn_str exc)),
                                 (''status'', PStr ''failed'')])"
  proof (intro allI impI)
    fix i
    assume "i < length rs"
    then have i: "i < length items"
      by (simp add: rs)
    have "results ! i =
            result_entry (whatsapp_format (items ! i))
              (respond sv (calls wc @ take i sends) (sends ! i))"
      using i by (simp add: results_def nth_send_entries send_states_trace [OF formatted client] sends)
    then show "results ! i =
                     (case respond sv (calls wc @ take i sends) (sends ! i) of
                        Inr sid \<Rightarrow>
                          PDict [(''recipient'', PStr (rs ! i)), (''sid'', sid),
                                 (''status'', PStr ''sent'')]
                      | Inl exc \<Rightarrow>
                          PDict [(''recipient'', PStr (rs ! i)), (''error'', PStr (exn_str exc)),
                                 (''status'', PStr ''failed'')])"
      using i by (simp add: result_entry_def rs split: sum.splits)
  qed
  ultimately show "\<exists>results w1.
             whatsapp_lambda_handler cf sv event w =
               (Inr (PDict [(''statusCode'', PInt 200),
                            (''body'', PStr (json_dumps sv
                               (PDict [(''message'', PStr ''WhatsApp alerts processed''),
                                       (''results'', PList results)])))]),
                w1)
             \<and> calls w1 = calls wc @ sends
             \<and> length results = length rs
             \<and> (\<forall>i<length rs.
                   results ! i =
                     (case respond sv (calls wc @ take i sends) (sends ! i) of
                        Inr sid \<Rightarrow>
                          PDict [(''recipient'', PStr (rs ! i)), (''sid'', sid),
                                 (''status'', PStr ''sent'')]
                      | Inl exc \<Rightarrow>
                          PDict [(''recipient'', PStr (rs ! i)), (''error'', PStr (exn_str exc)),
                                 (''status'', PStr ''failed'')]))"
    by blast
qed

text \<open>
  The event of a successful run, sent to the two numbers of the example deployment from a
  fresh process: the credentials are fetched at the first send, and the messaging API
  accepts the first number and refuses the second. Then a send when no service can be
  reached, a send of event data whose status is an int, and a send to the first number
  when the client is cached.
\<close>

theorem whatsapp_sends_to_every_recipient_witness:
  \<open>whatsapp_event_data example_services success_payload = Inr (PDict success_payload)
   \<and> split_on CHR '','' ''+15550001, whatsapp:+15550002'' =
       [''+15550001'', '' whatsapp:+15550002'']
   \<and> map (\<lambda>item. if take 9 (str_strip example_services item) = ''whatsapp:''
                   then str_strip example_services item
                   else ''whatsapp:'' @ str_strip example_services item)
         (split_on CHR '','' ''+15550001, whatsapp:+15550002'') =
       [''whatsapp:+15550001'', ''whatsapp:+15550002'']
   \<and> format_whatsapp_message example_services (PDict success_payload) =
       Inr ([CHR 0xE2, CHR 0x9C, CHR 0x85] @ '' *Daily Coordinator Update*'' @
            [CHR 0x0A, CHR 0x0A] @ ''*ID:* daily-coordinator-001'' @
            [CHR 0x0A] @ ''*Status:* SUCCESS'' @ [CHR 0x0A] @ ''*Tasks:* 2'')
   \<and> fst (whatsapp_lambda_handler example_config example_services success_payload fresh_process) =
       Inr (PDict [(''statusCode'', PInt 200),
                   (''body'', PStr (''{"message": "WhatsApp alerts processed", "results": ['' @
                      ''{"recipient": "whatsapp:+15550001", "sid": "SM1", "status": "sent"}, '' @
                      ''{"recipient": "whatsapp:+15550002", "error": "Invalid number", '' @
                      ''"status": "failed"}]}''))])
   \<and> calls (snd (whatsapp_lambda_handler example_config example_services success_payload
                    fresh_process)) =
       [GetSecretValue ''twilio/credentials'',
        MessagesCreate (PStr ''AC1'') (PStr ''t0'') ''whatsapp:+14155238886'' ''whatsapp:+15550001''
          ([CHR 0xE2, CHR 0x9C, CHR 0x85] @ '' *Daily Coordinator Update*'' @
           [CHR 0x0A, CHR 0x0A] @ ''*ID:* daily-coordinator-001'' @
           [CHR 0x0A] @ ''*Status:* SUCCESS'' @ [CHR 0x0A] @ ''*Tasks:* 2''),
        MessagesCreate (PStr ''AC1'') (PStr ''t0'') ''whatsapp:+14155238886'' ''whatsapp:+15550002''
          ([CHR 0xE2, CHR 0x9C, CHR 0x85] @ '' *Daily Coordinator Update*'' @
           [CHR 0x0A, CHR 0x0A] @ ''*ID:* daily-coordinator-001'' @
           [CHR 0x0A] @ ''*Status:* SUCCESS'' @ [CHR 0x0A] @ ''*Tasks:* 2'')]
   \<and> send_whatsapp_alert example_config all_down (PDict success_payload) ''whatsapp:+15550001''
         fresh_process =
       (Inl (Exc ServiceError ''EndpointConnectionError''),
        fresh_process
          \<lparr>calls := [GetSecretValue ''twilio/credentials''],
           logs := [(''ERROR'', ''Failed to initialize Twilio client: EndpointConnectionError''),
                    (''ERROR'', ''Failed to send WhatsApp to whatsapp:+15550001: '' @
                                ''EndpointConnectionError'')]\<rparr>)
   \<and> send_whatsapp_alert example_config example_services (PDict [(''status'', PInt 1)])
         ''whatsapp:+15550001''
         (fresh_process\<lparr>twilio_client := Some (Client (PStr ''AC1'') (PStr ''t0''))\<rparr>) =
       (Inl (Exc AttributeError
               ([CHR 0x27] @ ''int'' @ [CHR 0x27] @ '' object has no attribute '' @
                [CHR 0x27] @ ''upper'' @ [CHR 0x27])),
        fresh_process
          \<lparr>logs := [(''ERROR'', ''Failed to send WhatsApp to whatsapp:+15550001: '' @
                                [CHR 0x27] @ ''int'' @ [CHR 0x27] @ '' object has no attribute '' @
                                [CHR 0x27] @ ''upper'' @ [CHR 0x27])],
           twilio_client := Some (Client (PStr ''AC1'') (PStr ''t0''))\<rparr>)
   \<and> send_whatsapp_alert example_config example_services (PDict success_payload)
         ''whatsapp:+15550001''
         (fresh_process\<lparr>twilio_client := Some (Client (PStr ''AC1'') (PStr ''t0''))\<rparr>) =
       (Inr (PStr ''SM1''),
        fresh_process
          \<lparr>calls := [MessagesCreate (PStr ''AC1'') (PStr ''t0'') ''whatsapp:+14155238886''
                       ''whatsapp:+15550001''
                       ([CHR 0xE2, CHR 0x9C, CHR 0x85] @ '' *Daily Coordinator Update*'' @
                        [CHR 0x0A, CHR 0x0A] @ ''*ID:* daily-coordinator-001'' @
                        [CHR 0x0A] @ ''*Status:* SUCCESS'' @ [CHR 0x0A] @ ''*Tasks:* 2'')],
           logs := [(''INFO'', ''WhatsApp sent to whatsapp:+15550001, SID: SM1'')],
           twilio_client := Some (Client (PStr ''AC1'') (PStr ''t0''))\<rparr>)\<close>
proof -
  let ?ed = "PDict success_payload"
  let ?to = "''+15550001, whatsapp:+15550002''"
  let ?rs = "[''whatsapp:+15550001'', ''whatsapp:+15550002'']"
  let ?w0 = "log ''INFO'' (''Received event: '' @ json_dumps example_services (PDict success_payload))
               fresh_process"
  let ?body = "[CHR 0xE2, CHR 0x9C, CHR 0x85] @ '' *Daily Coordinator Update*'' @
            [CHR 0x0A, CHR 0x0A] @ ''*ID:* daily-coordinator-001'' @
            [CHR 0x0A] @ ''*Status:* SUCCESS'' @ [CHR 0x0A] @ ''*Tasks:* 2''"
  let ?sid = "PStr ''AC1''"
  let ?token = "PStr ''t0''"
  let ?wc = "snd (get_twilio_client example_config example_services ?w0)"
  let ?sends = "map (\<lambda>r. MessagesCreate ?sid ?token (WHATSAPP_FROM example_config) r ?body) ?rs"
  let ?cached = "fresh_process\<lparr>twilio_client := Some (Client ?sid ?token)\<rparr>"
  let ?down = "fresh_process
          \<lparr>calls := [GetSecretValue ''twilio/credentials''],
           logs := [(''ERROR'', ''Failed to initialize Twilio client: EndpointConnectionError'')]\<rparr>"
  let ?missing = "Exc AttributeError
               ([CHR 0x27] @ ''int'' @ [CHR 0x27] @ '' object has no attribute '' @
                [CHR 0x27] @ ''upper'' @ [CHR 0x27])"
  let ?request = "MessagesCreate ?sid ?token (WHATSAPP_FROM example_config) ''whatsapp:+15550001'' ?body"
  have data: "whatsapp_event_data example_services success_payload = Inr ?ed"
    and true: "truthy ?ed"
    by (simp_all add: whatsapp_event_data_def success_payload_def dict_has_def)
  have to: "WHATSAPP_TO example_config = Some ?to" "?to \<noteq> []"
    by (simp_all add: example_config_def)
  have items: "split_on CHR '','' ?to = [''+15550001'', '' whatsapp:+15550002'']"
    by simp
  have rs: "?rs = map (\<lambda>item. if take 9 (str_strip example_services item) = ''whatsapp:''
                   then str_strip example_services item
                   else ''whatsapp:'' @ str_strip example_services item)
         (split_on CHR '','' ?to)"
    by (simp add: example_services_def example_strip_def example_space_def)
  have formatted: "format_whatsapp_message example_services ?ed = Inr ?body"
    by (simp add: format_whatsapp_message_def error_lines_def join_def example_services_def
          example_upper_def success_payload_def dict_get_def Let_def show_int_def show_nat.simps)
  have client: "get_twilio_client example_config example_services ?w0 =
                  (Inr (Client ?sid ?token), ?wc)"
    and history: "calls ?wc = [GetSecretValue ''twilio/credentials'']"
    by (simp_all add: prod_eq_iff get_twilio_client_def get_twilio_client_try_def
          fetch_secret_def log_def example_config_def example_services_def example_secrets_def
          example_json_loads_def fresh_process_def dict_get_def Let_def)
  have sender: "WHATSAPP_FROM example_config = ''whatsapp:+14155238886''"
    by (simp add: example_config_def)
  have cached: "get_twilio_client example_config example_services ?cached =
                  (Inr (Client ?sid ?token), ?cached)"
    by (simp add: get_twilio_client_def)
  have down: "get_twilio_client example_config all_down fresh_process =
                (Inl (Exc ServiceError ''EndpointConnectionError''), ?down)"
    by (simp add: get_twilio_client_def get_twilio_client_try_def fetch_secret_def log_def
          example_config_def all_down_def example_services_def fresh_process_def)
  have no_text: "format_whatsapp_message example_services (PDict [(''status'', PInt 1)]) =
                   Inl ?missing"
    by (simp add: format_whatsapp_message_def dict_get_def Let_def example_services_def
          example_error_text_def apostrophes_def)
  have first: "fst (send_whatsapp_alert example_config example_services ?ed
                      ''whatsapp:+15550001'' ?w0) = Inr (PStr ''SM1'')"
    and second: "fst (send_whatsapp_alert example_config example_services ?ed
                        ''whatsapp:+15550002''
                        (snd (send_whatsapp_alert example_config example_services ?ed
                                ''whatsapp:+15550001'' ?w0))) =
                 Inl (Exc ServiceError ''Invalid number'')"
    by (simp_all add: send_whatsapp_alert_def send_whatsapp_alert_try_def get_twilio_client_def
          get_twilio_client_try_def fetch_secret_def invoke_def log_def
          format_whatsapp_message_def error_lines_def join_def
          example_config_def example_services_def example_secrets_def example_json_loads_def
          example_respond_def success_payload_def fresh_process_def dict_get_def Let_def)
  have run_of: "whatsapp_event_data example_services success_payload = Inr ?ed \<and> truthy ?ed
       \<and> WHATSAPP_TO example_config = Some ?to \<and> ?to \<noteq> []
       \<and> ?rs = map (\<lambda>item. if take 9 (str_strip example_services item) = ''whatsapp:''
                          then str_strip example_services item
                          else ''whatsapp:'' @ str_strip example_services item)
                   (split_on CHR '','' ?to)
       \<and> ?w0 = ?w0"
    by (intro conjI) (rule data true to rs refl)+
  from whatsapp_sends_to_every_recipient [where sv = example_services
        and event = success_payload and event_data = ?ed and cf = example_config and to = ?to
        and rs = ?rs and ?w0.0 = ?w0 and w = fresh_process,
        THEN conjunct2, THEN conjunct1, THEN mp, OF run_of]
  obtain results states where
    run: "whatsapp_lambda_handler example_config example_services success_payload fresh_process =
            (Inr (PDict [(''statusCode'', PInt 200),
                         (''body'', PStr (json_dumps example_services
                            (PDict [(''message'', PStr ''WhatsApp alerts processed''),
                                    (''results'', PList results)])))]),
             last states)"
    and len: "length results = length (split_on CHR '','' ?to)"
    and start: "states ! 0 = ?w0"
    and each: "\<forall>i<length ?rs.
                 results ! i =
                   (case fst (send_whatsapp_alert example_config example_services ?ed (?rs ! i)
                                (states ! i)) of
                      Inr sid \<Rightarrow>
                        PDict [(''recipient'', PStr (?rs ! i)), (''sid'', sid),
                               (''status'', PStr ''sent'')]
                    | Inl exc \<Rightarrow>
                        PDict [(''recipient'', PStr (?rs ! i)), (''error'', PStr (exn_str exc)),
                               (''status'', PStr ''failed'')])
                 \<and> states ! Suc i =
                     snd (send_whatsapp_alert example_config example_services ?ed (?rs ! i)
                            (states ! i))"
    by (elim exE conjE) (rule that)
  have r0: "results ! 0 =
              PDict [(''recipient'', PStr ''whatsapp:+15550001''), (''sid'', PStr ''SM1''),
                     (''status'', PStr ''sent'')]"
    and s1: "states ! Suc 0 =
               snd (send_whatsapp_alert example_config example_services ?ed
                      ''whatsapp:+15550001'' ?w0)"
    using each [rule_format, of 0] start first by simp_all
  have r1: "results ! Suc 0 =
              PDict [(''recipient'', PStr ''whatsapp:+15550002''),
                     (''error'', PStr ''Invalid number''), (''status'', PStr ''failed'')]"
    using each [rule_format, of "Suc 0"] s1 second by simp
  have "length results = Suc (Suc 0)"
    using len items by simp
  then have "results = [results ! 0, results ! Suc 0]"
    by (auto simp: length_Suc_conv)
  with r0 r1 have results: "results =
      [PDict [(''recipient'', PStr ''whatsapp:+15550001''), (''sid'', PStr ''SM1''),
              (''status'', PStr ''sent'')],
       PDict [(''recipient'', PStr ''whatsapp:+15550002''),
              (''error'', PStr ''Invalid number''), (''status'', PStr ''failed'')]]"
    by simp
  have dumped: \<open>json_dumps example_services
         (PDict [(''message'', PStr ''WhatsApp alerts processed''),
                 (''results'',
                  PList [PDict [(''recipient'', PStr ''whatsapp:+15550001''),
                                (''sid'', PStr ''SM1''), (''status'', PStr ''sent'')],
                         PDict [(''recipient'', PStr ''whatsapp:+15550002''),
                                (''error'', PStr ''Invalid number''),
                                (''status'', PStr ''failed'')]])]) =
       ''{"message": "WhatsApp alerts processed", "results": ['' @
       ''{"recipient": "whatsapp:+15550001", "sid": "SM1", "status": "sent"}, '' @
       ''{"recipient": "whatsapp:+15550002", "error": "Invalid number", '' @
       ''"status": "failed"}]}''\<close>
    by (simp add: example_services_def join_def quoted_def)
  have answer: \<open>fst (whatsapp_lambda_handler example_config example_services success_payload
                      fresh_process) =
       Inr (PDict [(''statusCode'', PInt 200),
                   (''body'', PStr (''{"message": "WhatsApp alerts processed", "results": ['' @
                      ''{"recipient": "whatsapp:+15550001", "sid": "SM1", "status": "sent"}, '' @
                      ''{"recipient": "whatsapp:+15550002", "error": "Invalid number", '' @
                      ''"status": "failed"}]}''))])\<close>
    using dumped by (simp add: run results)
  have trace_of: "whatsapp_event_data example_services success_payload = Inr ?ed \<and> truthy ?ed
       \<and> WHATSAPP_TO example_config = Some ?to \<and> ?to \<noteq> []
       \<and> ?rs = map (\<lambda>item. if take 9 (str_strip example_services item) = ''whatsapp:''
                          then str_strip example_services item
                          else ''whatsapp:'' @ str_strip example_services item)
                   (split_on CHR '','' ?to)
       \<and> ?w0 = ?w0
       \<and> get_twilio_client example_config example_services ?w0 = (Inr (Client ?sid ?token), ?wc)
       \<and> format_whatsapp_message example_services ?ed = Inr ?body
       \<and> ?sends = ?sends"
    by (intro conjI) (rule data true to rs client formatted refl)+
  from whatsapp_sends_to_every_recipient [where sv = example_services
        and event = success_payload and event_data = ?ed and cf = example_config and to = ?to
        and rs = ?rs and ?w0.0 = ?w0 and w = fresh_process and account_sid = ?sid
        and auth_token = ?token and wc = ?wc and body = ?body and sends = ?sends,
        THEN conjunct2, THEN conjunct2, THEN conjunct2, THEN conjunct2, THEN conjunct2,
        THEN mp, OF trace_of]
  obtain results' w1 where
    run': "whatsapp_lambda_handler example_config example_services success_payload fresh_process =
            (Inr (PDict [(''statusCode'', PInt 200),
                         (''body'', PStr (json_dumps example_services
                            (PDict [(''message'', PStr ''WhatsApp alerts processed''),
                                    (''results'', PList results')])))]),
             w1)"
    and requests: "calls w1 = calls ?wc @ ?sends"
    by (elim exE conjE) (rule that)
  have trace: "calls (snd (whatsapp_lambda_handler example_config example_services
                                  success_payload fresh_process)) =
       [GetSecretValue ''twilio/credentials'',
        MessagesCreate ?sid ?token ''whatsapp:+14155238886'' ''whatsapp:+15550001'' ?body,
        MessagesCreate ?sid ?token ''whatsapp:+14155238886'' ''whatsapp:+15550002'' ?body]"
    using run' requests [unfolded history] by (simp add: sender)
  from whatsapp_sends_to_every_recipient [where cf = example_config and sv = all_down
        and ws = fresh_process and wc = ?down and event_data = ?ed
        and exc = "Exc ServiceError ''EndpointConnectionError''"
        and recipient = "''whatsapp:+15550001''",
        THEN conjunct2, THEN conjunct2, THEN conjunct1, THEN mp, OF down]
  have unreachable: "send_whatsapp_alert example_config all_down ?ed ''whatsapp:+15550001''
         fresh_process =
       (Inl (Exc ServiceError ''EndpointConnectionError''),
        log ''ERROR'' (''Failed to send WhatsApp to '' @ ''whatsapp:+15550001'' @ '': '' @
                       exn_str (Exc ServiceError ''EndpointConnectionError'')) ?down)" .
  from whatsapp_sends_to_every_recipient [where cf = example_config and sv = example_services
        and ws = ?cached and wc = ?cached and event_data = "PDict [(''status'', PInt 1)]"
        and exc = ?missing and account_sid = ?sid and auth_token = ?token
        and recipient = "''whatsapp:+15550001''",
        THEN conjunct2, THEN conjunct2, THEN conjunct2, THEN conjunct1, THEN mp,
        OF conjI [OF cached no_text]]
  have unformatted: "send_whatsapp_alert example_config example_services
         (PDict [(''status'', PInt 1)]) ''whatsapp:+15550001'' ?cached =
       (Inl ?missing,
        log ''ERROR'' (''Failed to send WhatsApp to '' @ ''whatsapp:+15550001'' @ '': '' @
                       exn_str ?missing) ?cached)" .
  from whatsapp_sends_to_every_recipient [where cf = example_config and sv = example_services
        and ws = ?cached and wc = ?cached and event_data = ?ed and body = ?body
        and account_sid = ?sid and auth_token = ?token
        and recipient = "''whatsapp:+15550001''" and request = ?request,
        THEN conjunct2, THEN conjunct2, THEN conjunct2, THEN conjunct2, THEN conjunct1, THEN mp,
        OF conjI [OF cached conjI [OF formatted refl]]]
  have "send_whatsapp_alert example_config example_services ?ed ''whatsapp:+15550001'' ?cached =
            (case respond example_services (calls ?cached) ?request of
               Inr sid \<Rightarrow>
                 (Inr sid,
                  log ''INFO'' (''WhatsApp sent to '' @ ''whatsapp:+15550001'' @ '', SID: '' @
                                py_str example_services sid)
                    (?cached\<lparr>calls := calls ?cached @ [?request]\<rparr>))
             | Inl exc \<Rightarrow>
                 (Inl exc,
                  log ''ERROR''
                    (''Failed to send WhatsApp to '' @ ''whatsapp:+15550001'' @ '': '' @ exn_str exc)
                    (?cached\<lparr>calls := calls ?cached @ [?request]\<rparr>)))" .
  then have sent: "send_whatsapp_alert example_config example_services ?ed
         ''whatsapp:+15550001'' ?cached =
       (Inr (PStr ''SM1''),
        fresh_process
          \<lparr>calls := [MessagesCreate ?sid ?token ''whatsapp:+14155238886'' ''whatsapp:+15550001''
                       ?body],
           logs := [(''INFO'', ''WhatsApp sent to whatsapp:+15550001, SID: SM1'')],
           twilio_client := Some (Client ?sid ?token)\<rparr>)"
    by (simp add: example_services_def example_respond_def example_config_def log_def
          fresh_process_def)
  from unreachable have unreachable':
    "send_whatsapp_alert example_config all_down ?ed ''whatsapp:+15550001'' fresh_process =
       (Inl (Exc ServiceError ''EndpointConnectionError''),
        fresh_process
          \<lparr>calls := [GetSecretValue ''twilio/credentials''],
           logs := [(''ERROR'', ''Failed to initialize Twilio client: EndpointConnectionError''),
                    (''ERROR'', ''Failed to send WhatsApp to whatsapp:+15550001: '' @
                                ''EndpointConnectionError'')]\<rparr>)"
    by (simp add: log_def fresh_process_def)
  from unformatted have unformatted':
    "send_whatsapp_alert example_config example_services (PDict [(''status'', PInt 1)])
         ''whatsapp:+15550001'' ?cached =
       (Inl ?missing,
        fresh_process
          \<lparr>logs := [(''ERROR'', ''Failed to send WhatsApp to whatsapp:+15550001: '' @
                                [CHR 0x27] @ ''int'' @ [CHR 0x27] @ '' object has no attribute '' @
                                [CHR 0x27] @ ''upper'' @ [CHR 0x27])],
           twilio_client := Some (Client ?sid ?token)\<rparr>)"
    by (simp add: log_def fresh_process_def)
  from data items rs formatted answer trace unreachable' unformatted' sent show ?thesis
    by simp
qed

text \<open>
  C10. With event data present and \<open>WHATSAPP_TO\<close> set, the handler returns a response
  with status code 200 whose body is the serialised list of entries; it does not raise.
  When every send raises, every entry is a \<open>failed\<close> entry with the text of the
  exception, and the response is the same 200.
\<close>

theorem whatsapp_failures_answer_200:
  "whatsapp_event_data sv event = Inr event_data \<and> truthy event_data
   \<and> WHATSAPP_TO cf = Some to \<and> to \<noteq> []
   \<and> rs = map (str_strip sv) (split_on CHR '','' to)
   \<and> w0 = log ''INFO'' (''Received event: '' @ json_dumps sv (PDict event)) w
   \<longrightarrow> (\<exists>w1. whatsapp_lambda_handler cf sv event w =
            (Inr (PDict [(''statusCode'', PInt 200),
                         (''body'', PStr (json_dumps sv
                            (PDict [(''message'', PStr ''WhatsApp alerts processed''),
                                    (''results'', PList (send_entries cf sv event_data rs w0))])))]),
             w1))
       \<and> ((\<forall>i<length rs.
              isl (fst (send_whatsapp_alert cf sv event_data (whatsapp_format (rs ! i))
                          (send_states cf sv event_data rs w0 ! i))))
          \<longrightarrow> (\<forall>i<length rs. \<exists>exc.
                 send_entries cf sv event_data rs w0 ! i =
                   PDict [(''recipient'', PStr (whatsapp_format (rs ! i))),
                          (''error'', PStr (exn_str exc)), (''status'', PStr ''failed'')]))"
proof (intro impI conjI allI)
  assume a: "whatsapp_event_data sv event = Inr event_data \<and> truthy event_data
   \<and> WHATSAPP_TO cf = Some to \<and> to \<noteq> []
   \<and> rs = map (str_strip sv) (split_on CHR '','' to)
   \<and> w0 = log ''INFO'' (''Received event: '' @ json_dumps sv (PDict event)) w"
  then show "\<exists>w1. whatsapp_lambda_handler cf sv event w =
            (Inr (PDict [(''statusCode'', PInt 200),
                         (''body'', PStr (json_dumps sv
                            (PDict [(''message'', PStr ''WhatsApp alerts processed''),
                                    (''results'', PList (send_entries cf sv event_data rs w0))])))]),
             w1)"
    by (simp add: whatsapp_handler_sends api_response_def)
next
  fix i
  assume raises: "\<forall>i<length rs.
              isl (fst (send_whatsapp_alert cf sv event_data (whatsapp_format (rs ! i))
                          (send_states cf sv event_data rs w0 ! i)))"
    and i: "i < length rs"
  then obtain exc where
    "fst (send_whatsapp_alert cf sv event_data (whatsapp_format (rs ! i))
            (send_states cf sv event_data rs w0 ! i)) = Inl exc"
    by (auto simp: isl_def)
  with i show "\<exists>exc.
                 send_entries cf sv event_data rs w0 ! i =
                   PDict [(''recipient'', PStr (whatsapp_format (rs ! i))),
                          (''error'', PStr (exn_str exc)), (''status'', PStr ''failed'')]"
    by (auto simp: nth_send_entries result_entry_def)
qed

text \<open>The event of a successful run when no service can be reached: both sends raise.\<close>

theorem whatsapp_failures_answer_200_witness:
  \<open>whatsapp_event_data all_down success_payload = Inr (PDict success_payload)
   \<and> isl (fst (send_whatsapp_alert example_config all_down (PDict success_payload)
                 ''whatsapp:+15550001''
                 (log ''INFO'' (''Received event: '' @ json_dumps all_down (PDict success_payload))
                    fresh_process)))
   \<and> fst (whatsapp_lambda_handler example_config all_down success_payload fresh_process) =
       Inr (PDict [(''statusCode'', PInt 200),
                   (''body'', PStr (''{"message": "WhatsApp alerts processed", "results": ['' @
                      ''{"recipient": "whatsapp:+15550001", '' @
                      ''"error": "EndpointConnectionError", "status": "failed"}, '' @
                      ''{"recipient": "whatsapp:+15550002", '' @
                      ''"error": "EndpointConnectionError", "status": "failed"}]}''))])\<close>
proof -
  let ?rs = "[''+15550001'', ''whatsapp:+15550002'']"
  let ?w0 = "log ''INFO'' (''Received event: '' @ json_dumps all_down (PDict success_payload))
               fresh_process"
  have data: "whatsapp_event_data all_down success_payload = Inr (PDict success_payload)"
    and true: "truthy (PDict success_payload)"
    by (simp_all add: whatsapp_event_data_def success_payload_def dict_has_def)
  have to: "WHATSAPP_TO example_config = Some ''+15550001, whatsapp:+15550002''"
    by (simp add: example_config_def)
  have rs: "?rs = map (str_strip all_down) (split_on CHR '','' ''+15550001, whatsapp:+15550002'')"
    by (simp add: all_down_def example_services_def example_strip_def example_space_def)
  have first: "isl (fst (send_whatsapp_alert example_config all_down (PDict success_payload)
                 ''whatsapp:+15550001'' ?w0))"
    by (simp add: send_whatsapp_alert_def send_whatsapp_alert_try_def get_twilio_client_def
          get_twilio_client_try_def fetch_secret_def log_def
          example_config_def all_down_def example_services_def fresh_process_def)
  have entries: "send_entries example_config all_down (PDict success_payload) ?rs ?w0 =
      [PDict [(''recipient'', PStr ''whatsapp:+15550001''),
              (''error'', PStr ''EndpointConnectionError''), (''status'', PStr ''failed'')],
       PDict [(''recipient'', PStr ''whatsapp:+15550002''),
              (''error'', PStr ''EndpointConnectionError''), (''status'', PStr ''failed'')]]"
    by (simp add: send_entries_def result_entry_def whatsapp_format_def startswith_def
          send_whatsapp_alert_def send_whatsapp_alert_try_def get_twilio_client_def
          get_twilio_client_try_def fetch_secret_def log_def
          example_config_def all_down_def example_services_def fresh_process_def)
  from whatsapp_failures_answer_200 [where sv = all_down
        and event = success_payload and event_data = "PDict success_payload"
        and cf = example_config and to = "''+15550001, whatsapp:+15550002''"
        and rs = ?rs and ?w0.0 = ?w0 and w = fresh_process] data true to rs
  have "\<exists>w1. whatsapp_lambda_handler example_config all_down success_payload fresh_process =
            (Inr (PDict [(''statusCode'', PInt 200),
                         (''body'', PStr (json_dumps all_down
                            (PDict [(''message'', PStr ''WhatsApp alerts processed''),
                                    (''results'',
                                     PList (send_entries example_config all_down
                                              (PDict success_payload) ?rs ?w0))])))]),
             w1)"
    by blast
  then have "fst (whatsapp_lambda_handler example_config all_down success_payload fresh_process) =
        Inr (PDict [(''statusCode'', PInt 200),
                    (''body'', PStr (json_dumps all_down
                       (PDict [(''message'', PStr ''WhatsApp alerts processed''),
                               (''results'',
                                PList (send_entries example_config all_down
                                         (PDict success_payload) ?rs ?w0))])))])"
    by auto
  moreover have \<open>json_dumps all_down
         (PDict [(''message'', PStr ''WhatsApp alerts processed''),
                 (''results'',
                  PList [PDict [(''recipient'', PStr ''whatsapp:+15550001''),
                                (''error'', PStr ''EndpointConnectionError''),
                                (''status'', PStr ''failed'')],
                         PDict [(''recipient'', PStr ''whatsapp:+15550002''),
                                (''error'', PStr ''EndpointConnectionError''),
                                (''status'', PStr ''failed'')]])]) =
       ''{"message": "WhatsApp alerts processed", "results": ['' @
       ''{"recipient": "whatsapp:+15550001", '' @
       ''"error": "EndpointConnectionError", "status": "failed"}, '' @
       ''{"recipient": "whatsapp:+15550002", '' @
       ''"error": "EndpointConnectionError", "status": "failed"}]}''\<close>
    by (simp add: all_down_def example_services_def join_def quoted_def)
  ultimately show ?thesis using data first entries by simp
qed

section \<open>The coordination handler\<close>

lemma get_secrets_run:
  "\<exists>secrets w1 pre. get_secrets cf sv w = (Inr secrets, w1) \<and> calls w1 = calls w @ pre"
  by (auto simp: get_secrets_def get_secrets_try_def fetch_secret_def log_def
      split: option.splits sum.splits prod.splits)

lemma save_state_to_dynamodb_run:
  "\<exists>item w1.
     save_state_to_dynamodb cf sv cid state w =
       (Inr (succeeds sv (calls w) (PutItem (DYNAMODB_TABLE cf) item)), w1)
     \<and> calls w1 = calls w @ [PutItem (DYNAMODB_TABLE cf) item]"
  by (auto simp: save_state_to_dynamodb_def now_def invoke_def log_def succeeds_def Let_def
      split: sum.splits)

lemma upload_cache_to_s3_run:
  "\<exists>w1.
     upload_cache_to_s3 cf sv key data w =
       (Inr (succeeds sv (calls w)
               (PutObject (S3_BUCKET cf) key (json_dumps sv (PDict data))
                  ''application/json'' ''AES256'')), w1)
     \<and> calls w1 = calls w @ [PutObject (S3_BUCKET cf) key (json_dumps sv (PDict data))
                                ''application/json'' ''AES256'']"
  by (auto simp: upload_cache_to_s3_def invoke_def log_def succeeds_def split: sum.splits)

lemma publish_alert_run:
  "\<exists>published w1.
     publish_alert cf sv subject message w = (Inr published, w1)
     \<and> calls w1 = calls w @ [SnsPublish (SNS_TOPIC_ARN cf) subject message]"
  by (auto simp: publish_alert_def invoke_def log_def split: sum.splits)

lemma coordinate_try_steps:
  assumes "get_secrets cf sv w = (Inr secrets, w1)"
    and "save_state_to_dynamodb cf sv (coordinator_id r0)
           [(''status'', PStr ''running''), (''last_run'', PStr (timestamp r0)),
            (''tasks_count'', PInt 5)]
           (log ''INFO'' ''Secrets retrieved successfully'' w1) = (Inr saved, w3)"
    and "now sv w3 = (today, w4)"
    and "upload_cache_to_s3 cf sv
           (''cache/'' @ coordinator_id r0 @ ''/'' @ date_str today @ ''.json'')
           [(''timestamp'', PStr (timestamp r0)), (''coordinator_id'', PStr (coordinator_id r0)),
            (''cache_entries'', PInt 10), (''status'', PStr ''cached'')] w4 = (Inr uploaded, w5)"
    and "save_state_to_dynamodb cf sv (coordinator_id r0)
           [(''status'', PStr ''completed''), (''last_run'', PStr (timestamp r0)),
            (''tasks_count'', PInt 5)] w5 = (Inr saved2, w6)"
    and "r2 = r0\<lparr>tasks_processed := tasks_processed r0 + (if saved then 1 else 0)
                                        + (if uploaded then 1 else 0),
                    errors := errors r0
                      @ (if saved then [] else [''Failed to save state to DynamoDB''])
                      @ (if uploaded then [] else [''Failed to upload cache to S3''])\<rparr>"
    and "errors r2 = [] \<Longrightarrow>
         publish_alert cf sv ''Daily Coordinator - Success''
           (''Daily coordination completed successfully at '' @ timestamp r0) w6 =
         (Inr published, w7)"
    and "errors r2 \<noteq> [] \<Longrightarrow>
         publish_alert cf sv ''Daily Coordinator - Partial Success''
           (''Daily Coordinator completed with '' @
            py_str sv (PInt (int (length (errors r2)))) @ '' errors:'' @ [CHR 0x0A] @
            join [CHR 0x0A] (errors r2)) w6 =
         (Inr published, w7)"
  shows "coordinate_try cf sv r0 w = (Inr r2, w7)"
  using assms
  by (cases saved; cases uploaded; cases "errors r0 = []")
     (simp_all add: coordinate_try_def Let_def)

lemma coordinate_try_run:
  "\<exists>r w1 h item key body item2 subject message.
     coordinate_try cf sv r0 w = (Inr r, w1)
     \<and> calls w1 = h @ [PutItem (DYNAMODB_TABLE cf) item,
                       PutObject (S3_BUCKET cf) key body ''application/json'' ''AES256'',
                       PutItem (DYNAMODB_TABLE cf) item2,
                       SnsPublish (SNS_TOPIC_ARN cf) subject message]
     \<and> tasks_processed r = tasks_processed r0
         + (if succeeds sv h (PutItem (DYNAMODB_TABLE cf) item) then 1 else 0)
         + (if succeeds sv (h @ [PutItem (DYNAMODB_TABLE cf) item])
                 (PutObject (S3_BUCKET cf) key body ''application/json'' ''AES256'')
            then 1 else 0)
     \<and> errors r = errors r0
         @ (if succeeds sv h (PutItem (DYNAMODB_TABLE cf) item) then []
            else [''Failed to save state to DynamoDB''])
         @ (if succeeds sv (h @ [PutItem (DYNAMODB_TABLE cf) item])
                 (PutObject (S3_BUCKET cf) key body ''application/json'' ''AES256'')
            then [] else [''Failed to upload cache to S3''])
     \<and> status r = status r0
     \<and> subject = (if errors r = [] then ''Daily Coordinator - Success''
                  else ''Daily Coordinator - Partial Success'')"
proof -
  let ?state = "[(''status'', PStr ''running''), (''last_run'', PStr (timestamp r0)),
                 (''tasks_count'', PInt 5)]"
  let ?state2 = "[(''status'', PStr ''completed''), (''last_run'', PStr (timestamp r0)),
                  (''tasks_count'', PInt 5)]"
  let ?cache = "[(''timestamp'', PStr (timestamp r0)),
                 (''coordinator_id'', PStr (coordinator_id r0)),
                 (''cache_entries'', PInt 10), (''status'', PStr ''cached'')]"
  let ?table = "DYNAMODB_TABLE cf"
  obtain secrets w1 pre where
    secrets: "get_secrets cf sv w = (Inr secrets, w1)" and c1: "calls w1 = calls w @ pre"
    using get_secrets_run by blast
  let ?w2 = "log ''INFO'' ''Secrets retrieved successfully'' w1"
  define h where "h = calls w @ pre"
  have c2: "calls ?w2 = h"
    using c1 by (simp add: log_def h_def)
  obtain item w3 where
    save: "save_state_to_dynamodb cf sv (coordinator_id r0) ?state ?w2 =
             (Inr (succeeds sv h (PutItem ?table item)), w3)"
    and c3: "calls w3 = h @ [PutItem ?table item]"
    using save_state_to_dynamodb_run [of cf sv "coordinator_id r0" ?state ?w2] c2 by auto
  obtain today w4 where now: "now sv w3 = (today, w4)" and c4: "calls w4 = calls w3"
    by (simp add: now_def)
  let ?key = "''cache/'' @ coordinator_id r0 @ ''/'' @ date_str today @ ''.json''"
  define put where "put = PutObject (S3_BUCKET cf) ?key (json_dumps sv (PDict ?cache))
                ''application/json'' ''AES256''"
  obtain w5 where
    upload: "upload_cache_to_s3 cf sv ?key ?cache w4 =
               (Inr (succeeds sv (h @ [PutItem ?table item]) put), w5)"
    and c5: "calls w5 = h @ [PutItem ?table item, put]"
    using upload_cache_to_s3_run [of cf sv ?key ?cache w4] c3 c4 by (auto simp: put_def)
  obtain item2 w6 where
    save2: "save_state_to_dynamodb cf sv (coordinator_id r0) ?state2 w5 =
             (Inr (succeeds sv (calls w5) (PutItem ?table item2)), w6)"
    and c6: "calls w6 = h @ [PutItem ?table item, put, PutItem ?table item2]"
    using save_state_to_dynamodb_run [of cf sv "coordinator_id r0" ?state2 w5] c5 by auto
  define saved where "saved = succeeds sv h (PutItem ?table item)"
  define uploaded where "uploaded = succeeds sv (h @ [PutItem ?table item]) put"
  define r2 where
    "r2 = r0\<lparr>tasks_processed := tasks_processed r0 + (if saved then 1 else 0)
                                        + (if uploaded then 1 else 0),
                    errors := errors r0
                      @ (if saved then [] else [''Failed to save state to DynamoDB''])
                      @ (if uploaded then [] else [''Failed to upload cache to S3''])\<rparr>"
  define subject where
    "subject = (if errors r2 = [] then ''Daily Coordinator - Success''
                else ''Daily Coordinator - Partial Success'')"
  define message where
    "message = (if errors r2 = []
      then ''Daily coordination completed successfully at '' @ timestamp r0
      else ''Daily Coordinator completed with '' @
           py_str sv (PInt (int (length (errors r2)))) @ '' errors:'' @ [CHR 0x0A] @
           join [CHR 0x0A] (errors r2))"
  obtain published w7 where
    alert: "publish_alert cf sv subject message w6 = (Inr published, w7)"
    and c7: "calls w7 = h @ [PutItem ?table item, put, PutItem ?table item2,
                            SnsPublish (SNS_TOPIC_ARN cf) subject message]"
    using publish_alert_run [of cf sv subject message w6] c6 by auto
  have success: "errors r2 = [] \<Longrightarrow>
         publish_alert cf sv ''Daily Coordinator - Success''
           (''Daily coordination completed successfully at '' @ timestamp r0) w6 =
         (Inr published, w7)"
    and partial: "errors r2 \<noteq> [] \<Longrightarrow>
         publish_alert cf sv ''Daily Coordinator - Partial Success''
           (''Daily Coordinator completed with '' @
            py_str sv (PInt (int (length (errors r2)))) @ '' errors:'' @ [CHR 0x0A] @
            join [CHR 0x0A] (errors r2)) w6 =
         (Inr published, w7)"
    using alert by (simp_all add: subject_def message_def)
  have run: "coordinate_try cf sv r0 w = (Inr r2, w7)"
    by (rule coordinate_try_steps
          [OF secrets save [folded saved_def] now upload [folded uploaded_def] save2 r2_def
              success partial])
  have "tasks_processed r2 = tasks_processed r0
          + (if succeeds sv h (PutItem ?table item) then 1 else 0)
          + (if succeeds sv (h @ [PutItem ?table item])
                  (PutObject (S3_BUCKET cf) ?key (json_dumps sv (PDict ?cache))
                     ''application/json'' ''AES256'')
             then 1 else 0)"
    and "errors r2 = errors r0
          @ (if succeeds sv h (PutItem ?table item) then []
             else [''Failed to save state to DynamoDB''])
          @ (if succeeds sv (h @ [PutItem ?table item])
                  (PutObject (S3_BUCKET cf) ?key (json_dumps sv (PDict ?cache))
                     ''application/json'' ''AES256'')
             then [] else [''Failed to upload cache to S3''])"
    and "status r2 = status r0"
    and "calls w7 = h @ [PutItem ?table item,
                        PutObject (S3_BUCKET cf) ?key (json_dumps sv (PDict ?cache))
                          ''application/json'' ''AES256'',
                        PutItem ?table item2,
                        SnsPublish (SNS_TOPIC_ARN cf) subject message]"
    and "subject = (if errors r2 = [] then ''Daily Coordinator - Success''
                    else ''Daily Coordinator - Partial Success'')"
    using c7 by (simp_all add: r2_def saved_def uploaded_def put_def subject_def)
  with run show ?thesis by blast
qed

lemma coordinate_daily_tasks_run:
  assumes "now sv w = (t, w0)"
    and "coordinate_try cf sv (initial_results (isoformat t)) w0 = (Inr r, w1)"
  shows "coordinate_daily_tasks cf sv w = (Inr r, w1)"
  using assms by (simp add: coordinate_daily_tasks_def)

lemma example_try:
  "fst (coordinate_try example_config example_services
          (initial_results ''2024-01-01T00:00:00'') (fresh_process\<lparr>ticks := 1\<rparr>)) =
   Inr \<lparr>coordinator_id = ''daily-coordinator-001'', timestamp = ''2024-01-01T00:00:00'',
        status = ''success'', tasks_processed = 1, errors = [''Failed to upload cache to S3'']\<rparr>"
  by (simp add: coordinate_try_def get_secrets_def get_secrets_try_def fetch_secret_def
        save_state_to_dynamodb_def upload_cache_to_s3_def publish_alert_def invoke_def now_def
        log_def initial_results_def join_def example_config_def example_services_def
        example_secrets_def example_json_loads_def example_respond_def fresh_process_def
        dict_has_def dict_get_def Let_def)

lemma example_now:
  "now example_services fresh_process =
     (\<lparr>isoformat = ''2024-01-01T00:00:00'', timestamp_s = 1704067200,
       timestamp_ms = 1704067200000, date_str = ''2024-01-01''\<rparr>,
      fresh_process\<lparr>ticks := 1\<rparr>)"
  by (simp add: now_def example_services_def fresh_process_def)

text \<open>
  C7. When the \<open>try\<close> block of \<open>coordinate_daily_tasks\<close> completes, its result is the
  result of the function, and the requests the block has added to the history end with
  the state save, the cache upload, the second state save and one alert. The result
  counts in \<open>tasks_processed\<close> those of the state save and the cache upload that
  succeeded and holds in \<open>errors\<close> one message for each that failed, in this order, so
  the two add up to 2; the subject of the alert is \<open>Success\<close> when \<open>errors\<close> is empty
  and \<open>Partial Success\<close> otherwise. The second state save is not counted, and the
  outcome of the alert is ignored.
\<close>

theorem coordinate_counts_storage_outcomes:
  "now sv w = (t, w0) \<and> coordinate_try cf sv (initial_results (isoformat t)) w0 = (Inr r, w1)
   \<longrightarrow> coordinate_daily_tasks cf sv w = (Inr r, w1)
       \<and> (\<exists>h item key body item2 subject message.
            calls w1 = h @ [PutItem (DYNAMODB_TABLE cf) item,
                            PutObject (S3_BUCKET cf) key body ''application/json'' ''AES256'',
                            PutItem (DYNAMODB_TABLE cf) item2,
                            SnsPublish (SNS_TOPIC_ARN cf) subject message]
            \<and> tasks_processed r =
                (if succeeds sv h (PutItem (DYNAMODB_TABLE cf) item) then 1 else 0)
                + (if succeeds sv (h @ [PutItem (DYNAMODB_TABLE cf) item])
                        (PutObject (S3_BUCKET cf) key body ''application/json'' ''AES256'')
                   then 1 else 0)
            \<and> errors r =
                (if succeeds sv h (PutItem (DYNAMODB_TABLE cf) item) then []
                 else [''Failed to save state to DynamoDB''])
                @ (if succeeds sv (h @ [PutItem (DYNAMODB_TABLE cf) item])
                        (PutObject (S3_BUCKET cf) key body ''application/json'' ''AES256'')
                   then [] else [''Failed to upload cache to S3''])
            \<and> tasks_processed r + int (length (errors r)) = 2
            \<and> subject = (if errors r = [] then ''Daily Coordinator - Success''
                         else ''Daily Coordinator - Partial Success''))"
proof (intro impI conjI)
  assume a: "now sv w = (t, w0)
    \<and> coordinate_try cf sv (initial_results (isoformat t)) w0 = (Inr r, w1)"
  then show "coordinate_daily_tasks cf sv w = (Inr r, w1)"
    by (simp add: coordinate_daily_tasks_run)
  obtain r' w1' h item key body item2 subject message where
    run: "coordinate_try cf sv (initial_results (isoformat t)) w0 = (Inr r', w1')"
    and trace: "calls w1' = h @ [PutItem (DYNAMODB_TABLE cf) item,
                       PutObject (S3_BUCKET cf) key body ''application/json'' ''AES256'',
                       PutItem (DYNAMODB_TABLE cf) item2,
                       SnsPublish (SNS_TOPIC_ARN cf) subject message]"
    and count: "tasks_processed r' = tasks_processed (initial_results (isoformat t))
         + (if succeeds sv h (PutItem (DYNAMODB_TABLE cf) item) then 1 else 0)
         + (if succeeds sv (h @ [PutItem (DYNAMODB_TABLE cf) item])
                 (PutObject (S3_BUCKET cf) key body ''application/json'' ''AES256'')
            then 1 else 0)"
    and errs: "errors r' = errors (initial_results (isoformat t))
         @ (if succeeds sv h (PutItem (DYNAMODB_TABLE cf) item) then []
            else [''Failed to save state to DynamoDB''])
         @ (if succeeds sv (h @ [PutItem (DYNAMODB_TABLE cf) item])
                 (PutObject (S3_BUCKET cf) key body ''application/json'' ''AES256'')
            then [] else [''Failed to upload cache to S3''])"
    and subj: "subject = (if errors r' = [] then ''Daily Coordinator - Success''
                  else ''Daily Coordinator - Partial Success'')"
    using coordinate_try_run [of cf sv "initial_results (isoformat t)" w0] by blast
  from a run have same: "r' = r" "w1' = w1"
    by simp_all
  have "tasks_processed r + int (length (errors r)) = 2"
    using count errs same by (simp add: initial_results_def)
  with trace count errs subj same
  show "\<exists>h item key body item2 subject message.
            calls w1 = h @ [PutItem (DYNAMODB_TABLE cf) item,
                            PutObject (S3_BUCKET cf) key body ''application/json'' ''AES256'',
                            PutItem (DYNAMODB_TABLE cf) item2,
                            SnsPublish (SNS_TOPIC_ARN cf) subject message]
            \<and> tasks_processed r =
                (if succeeds sv h (PutItem (DYNAMODB_TABLE cf) item) then 1 else 0)
                + (if succeeds sv (h @ [PutItem (DYNAMODB_TABLE cf) item])
                        (PutObject (S3_BUCKET cf) key body ''application/json'' ''AES256'')
                   then 1 else 0)
            \<and> errors r =
                (if succeeds sv h (PutItem (DYNAMODB_TABLE cf) item) then []
                 else [''Failed to save state to DynamoDB''])
                @ (if succeeds sv (h @ [PutItem (DYNAMODB_TABLE cf) item])
                        (PutObject (S3_BUCKET cf) key body ''application/json'' ''AES256'')
                   then [] else [''Failed to upload cache to S3''])
            \<and> tasks_processed r + int (length (errors r)) = 2
            \<and> subject = (if errors r = [] then ''Daily Coordinator - Success''
                         else ''Daily Coordinator - Partial Success'')"
    by (auto simp: initial_results_def)
qed

text \<open>
  In the example deployment the state is saved and the upload is refused: one task, one
  error, and an alert of partial success as the last request.
\<close>

theorem coordinate_counts_storage_outcomes_witness:
  "fst (coordinate_daily_tasks example_config example_services fresh_process) =
     Inr \<lparr>coordinator_id = ''daily-coordinator-001'', timestamp = ''2024-01-01T00:00:00'',
          status = ''success'', tasks_processed = 1,
          errors = [''Failed to upload cache to S3'']\<rparr>
   \<and> last (calls (snd (coordinate_daily_tasks example_config example_services fresh_process))) =
     SnsPublish (Some ''arn:aws:sns:us-east-1:123456789012:alerts'')
       ''Daily Coordinator - Partial Success''
       (''Daily Coordinator completed with 1 errors:'' @ [CHR 0x0A] @
        ''Failed to upload cache to S3'')"
proof -
  let ?t = "\<lparr>isoformat = ''2024-01-01T00:00:00'', timestamp_s = 1704067200,
             timestamp_ms = 1704067200000, date_str = ''2024-01-01''\<rparr>"
  let ?w0 = "fresh_process\<lparr>ticks := 1\<rparr>"
  let ?r = "\<lparr>coordinator_id = ''daily-coordinator-001'', timestamp = ''2024-01-01T00:00:00'',
             status = ''success'', tasks_processed = 1,
             errors = [''Failed to upload cache to S3'']\<rparr>"
  let ?run = "coordinate_try example_config example_services (initial_results (isoformat ?t)) ?w0"
  have "?run = (Inr ?r, snd ?run)"
    using example_try by (simp add: prod_eq_iff)
  with example_now coordinate_counts_storage_outcomes [where sv = example_services
        and w = fresh_process and t = ?t and ?w0.0 = ?w0 and cf = example_config and r = ?r
        and ?w1.0 = "snd ?run"]
  have run: "coordinate_daily_tasks example_config example_services fresh_process =
               (Inr ?r, snd ?run)"
    and "\<exists>h item key body item2 subject message.
            calls (snd ?run) = h @ [PutItem (DYNAMODB_TABLE example_config) item,
                PutObject (S3_BUCKET example_config) key body ''application/json'' ''AES256'',
                PutItem (DYNAMODB_TABLE example_config) item2,
                SnsPublish (SNS_TOPIC_ARN example_config) subject message]
            \<and> subject = (if errors ?r = [] then ''Daily Coordinator - Success''
                         else ''Daily Coordinator - Partial Success'')"
    by blast+
  moreover have "last (calls (snd ?run)) =
     SnsPublish (Some ''arn:aws:sns:us-east-1:123456789012:alerts'')
       ''Daily Coordinator - Partial Success''
       (''Daily Coordinator completed with 1 errors:'' @ [CHR 0x0A] @
        ''Failed to upload cache to S3'')"
    by (simp add: coordinate_try_def get_secrets_def get_secrets_try_def fetch_secret_def
        save_state_to_dynamodb_def upload_cache_to_s3_def publish_alert_def invoke_def now_def
        log_def initial_results_def join_def example_config_def example_services_def
        example_secrets_def example_json_loads_def example_respond_def fresh_process_def
        dict_has_def dict_get_def Let_def show_int_def show_nat.simps)
  ultimately show ?thesis by simp
qed


lemma coordinate_except_returns:
  "\<exists>w2. coordinate_except cf sv exc r1 w1 =
          (Inr (r1\<lparr>status := ''failed'', errors := errors r1 @ [exn_str exc]\<rparr>), w2)"
  using publish_alert_run [of cf sv "''Daily Coordinator - Failed''" "''Error: '' @ exn_str exc"
      "log ''ERROR'' (''Error in coordinate_daily_tasks: '' @ exn_str exc) w1"]
  by (auto simp: coordinate_except_def Let_def)



text \<open>
  C9. When the \<open>try\<close> block of \<open>coordinate_daily_tasks\<close> completes, the result it
  returns has the status \<open>success\<close>, whatever its list of errors holds. The status
  \<open>failed\<close> is set by the \<open>except\<close> clause, in the result it returns.
\<close>

theorem status_success_despite_errors:
  "(now sv w = (t, w0) \<and> coordinate_try cf sv (initial_results (isoformat t)) w0 = (Inr r, w1)
      \<longrightarrow> coordinate_daily_tasks cf sv w = (Inr r, w1) \<and> status r = ''success'')
   \<and> (coordinate_except cf sv exc r1 w2 = (Inr r2, w3) \<longrightarrow> status r2 = ''failed'')"
proof (intro conjI impI)
  assume a: "now sv w = (t, w0)
    \<and> coordinate_try cf sv (initial_results (isoformat t)) w0 = (Inr r, w1)"
  then show "coordinate_daily_tasks cf sv w = (Inr r, w1)"
    by (simp add: coordinate_daily_tasks_run)
  obtain r' w1' where "coordinate_try cf sv (initial_results (isoformat t)) w0 = (Inr r', w1')"
    and "status r' = status (initial_results (isoformat t))"
    using coordinate_try_run [of cf sv "initial_results (isoformat t)" w0] by blast
  with a show "status r = ''success''"
    by (simp add: initial_results_def)
next
  assume "coordinate_except cf sv exc r1 w2 = (Inr r2, w3)"
  then show "status r2 = ''failed''"
    using coordinate_except_returns [of cf sv exc r1 w2] by auto
qed

text \<open>
  In the example deployment the upload is refused, and the result has an error and the
  status \<open>success\<close>; with every request accepted the result has no error and the same
  status. The \<open>except\<close> clause, given a connection error, returns a failed result.
\<close>

theorem status_success_despite_errors_witness:
  "fst (coordinate_daily_tasks example_config example_services fresh_process) =
     Inr \<lparr>coordinator_id = ''daily-coordinator-001'', timestamp = ''2024-01-01T00:00:00'',
          status = ''success'', tasks_processed = 1,
          errors = [''Failed to upload cache to S3'']\<rparr>
   \<and> fst (coordinate_daily_tasks example_config all_accepting fresh_process) =
     Inr \<lparr>coordinator_id = ''daily-coordinator-001'', timestamp = ''2024-01-01T00:00:00'',
          status = ''success'', tasks_processed = 2, errors = []\<rparr>
   \<and> fst (coordinate_except example_config example_services
            (Exc ServiceError ''EndpointConnectionError'')
            (initial_results ''2024-01-01T00:00:00'') fresh_process) =
     Inr \<lparr>coordinator_id = ''daily-coordinator-001'', timestamp = ''2024-01-01T00:00:00'',
          status = ''failed'', tasks_processed = 0, errors = [''EndpointConnectionError'']\<rparr>"
proof -
  let ?t = "\<lparr>isoformat = ''2024-01-01T00:00:00'', timestamp_s = 1704067200,
             timestamp_ms = 1704067200000, date_str = ''2024-01-01''\<rparr>"
  let ?w0 = "fresh_process\<lparr>ticks := 1\<rparr>"
  let ?partial = "\<lparr>coordinator_id = ''daily-coordinator-001'', timestamp = ''2024-01-01T00:00:00'',
             status = ''success'', tasks_processed = 1,
             errors = [''Failed to upload cache to S3'']\<rparr>"
  let ?full = "\<lparr>coordinator_id = ''daily-coordinator-001'', timestamp = ''2024-01-01T00:00:00'',
             status = ''success'', tasks_processed = 2, errors = []\<rparr>"
  let ?failed = "\<lparr>coordinator_id = ''daily-coordinator-001'', timestamp = ''2024-01-01T00:00:00'',
             status = ''failed'', tasks_processed = 0, errors = [''EndpointConnectionError'']\<rparr>"
  let ?run = "coordinate_try example_config example_services (initial_results (isoformat ?t)) ?w0"
  let ?run2 = "coordinate_try example_config all_accepting (initial_results (isoformat ?t)) ?w0"
  let ?handled = "coordinate_except example_config example_services
            (Exc ServiceError ''EndpointConnectionError'')
            (initial_results ''2024-01-01T00:00:00'') fresh_process"
  have now2: "now all_accepting fresh_process = (?t, ?w0)"
    by (simp add: now_def all_accepting_def example_services_def fresh_process_def)
  have "?run = (Inr ?partial, snd ?run)"
    using example_try by (simp add: prod_eq_iff)
  with example_now status_success_despite_errors [where sv = example_services
        and w = fresh_process and t = ?t and ?w0.0 = ?w0 and cf = example_config
        and r = ?partial and ?w1.0 = "snd ?run"]
  have partial: "coordinate_daily_tasks example_config example_services fresh_process =
               (Inr ?partial, snd ?run)"
    by blast
  have "fst ?run2 = Inr ?full"
    by (simp add: coordinate_try_def get_secrets_def get_secrets_try_def fetch_secret_def
        save_state_to_dynamodb_def upload_cache_to_s3_def publish_alert_def invoke_def now_def
        log_def initial_results_def join_def example_config_def example_services_def
        all_accepting_def example_secrets_def example_json_loads_def fresh_process_def
        dict_has_def dict_get_def Let_def)
  then have "?run2 = (Inr ?full, snd ?run2)"
    by (simp add: prod_eq_iff)
  with now2 status_success_despite_errors [where sv = all_accepting
        and w = fresh_process and t = ?t and ?w0.0 = ?w0 and cf = example_config
        and r = ?full and ?w1.0 = "snd ?run2"]
  have full: "coordinate_daily_tasks example_config all_accepting fresh_process =
               (Inr ?full, snd ?run2)"
    by blast
  have "fst ?handled = Inr ?failed"
    by (simp add: coordinate_except_def publish_alert_def invoke_def log_def
        initial_results_def example_services_def example_respond_def Let_def)
  with partial full show ?thesis by simp
qed

end
